theory Spec2Isabelle
  imports Main
begin

section \<open>The reservation store of esi-leap\<close>

text \<open>
  The development embeds the query layer of \<^verbatim>\<open>esi_leap/db/sqlalchemy/api.py\<close>.
  A table is the list of its rows, in storage order; a query is a filter over that list.
  Points in time (Python \<^verbatim>\<open>datetime\<close> values, totally ordered and always truthy) are
  integers. Identifiers and names are strings.
\<close>

type_synonym time = int

text \<open>
  Modelled from the spec: the module \<^verbatim>\<open>esi_leap.common.statuses\<close> is not among
  the source files of this development; section 3 of the specification lists the status values of the three
  kinds of reservation. The code only compares them for equality.
\<close>

datatype status = AVAILABLE | CLAIMED | CREATED | ACTIVE | CANCELLED | EXPIRED | ERROR | COMPLETED

record offer =
  o_uuid :: string
  o_project_id :: string
  o_lessee_id :: "string option"
  o_name :: string
  o_resource_type :: string
  o_resource_uuid :: string
  o_start_time :: time
  o_end_time :: time
  o_status :: status
  o_properties :: "(string \<times> string) list"

record lease =
  l_uuid :: string
  l_project_id :: string
  l_owner_id :: string
  l_offer_uuid :: "string option"
  l_name :: string
  l_resource_type :: string
  l_resource_uuid :: string
  l_start_time :: time
  l_end_time :: time
  l_status :: status
  l_properties :: "(string \<times> string) list"

record owner_change =
  oc_uuid :: string
  oc_from_owner_id :: string
  oc_to_owner_id :: string
  oc_resource_type :: string
  oc_resource_uuid :: string
  oc_start_time :: time
  oc_end_time :: time
  oc_status :: status

record store =
  offers :: "offer list"
  leases :: "lease list"
  owner_changes :: "owner_change list"

text \<open>The exceptions of \<^verbatim>\<open>esi_leap.common.exception\<close> that the query layer raises, with
  the keyword arguments they are built from, and the two Python and SQLAlchemy exceptions
  that the code can run into: an attribute read on \<^verbatim>\<open>None\<close> and a
  \<^verbatim>\<open>one_or_none()\<close> that finds several rows.\<close>

datatype error =
    OfferNoTimeAvailabilities string time time
  | InvalidTimeRange string time time
  | OfferNotFound string
  | LeaseNotFound string
  | OwnerChangeNotFound string
  | ResourceTimeConflict string string
  | AttributeError
  | MultipleResultsFound

subsection \<open>Query helpers\<close>

text \<open>\<^verbatim>\<open>Query.first()\<close>: the first row of the result, or \<^verbatim>\<open>None\<close>.\<close>

definition first :: "'a list \<Rightarrow> 'a option" where
  "first rows = (case rows of [] \<Rightarrow> None | r # _ \<Rightarrow> Some r)"

text \<open>\<^verbatim>\<open>Query.one_or_none()\<close>: the only row, \<^verbatim>\<open>None\<close> when there is none, and
  \<^verbatim>\<open>MultipleResultsFound\<close> when there are several.\<close>

definition one_or_none :: "'a list \<Rightarrow> error + 'a option" where
  "one_or_none rows =
     (case rows of [] \<Rightarrow> Inr None | [r] \<Rightarrow> Inr (Some r) | _ # _ # _ \<Rightarrow> Inl MultipleResultsFound)"

text \<open>The filter that \<^verbatim>\<open>offer_verify_availability\<close> and
  \<^verbatim>\<open>resource_verify_availability\<close> write out on the columns of each table: the
  candidate window \<open>[start, end)\<close> against a stored interval \<open>[s, e)\<close>.\<close>

definition time_conflict :: "time \<Rightarrow> time \<Rightarrow> time \<Rightarrow> time \<Rightarrow> bool" where
  "time_conflict start end s e \<longleftrightarrow>
     (start \<ge> s \<and> start < e) \<or> (end > s \<and> end \<le> e) \<or> (start \<le> s \<and> end \<ge> e)"

subsection \<open>Resources\<close>

definition resource_verify_availability ::
  "store \<Rightarrow> string \<Rightarrow> string \<Rightarrow> time \<Rightarrow> time \<Rightarrow> bool \<Rightarrow> error + unit" where
  "resource_verify_availability db r_type r_uuid start end is_owner_change =
     (let offers_q = filter (\<lambda>r. o_resource_uuid r = r_uuid \<and> o_resource_type r = r_type
                               \<and> o_status r = AVAILABLE) (offers db);
          offer_conflict = first (filter (\<lambda>r. time_conflict start end (o_start_time r) (o_end_time r))
                                    offers_q)
      in if offer_conflict \<noteq> None then Inl (ResourceTimeConflict r_uuid r_type)
         else
           let leases_q = filter (\<lambda>r. l_resource_uuid r = r_uuid \<and> l_resource_type r = r_type
                                    \<and> l_status r \<in> set [CREATED, ACTIVE]) (leases db);
               lease_conflict = first (filter (\<lambda>r. time_conflict start end (l_start_time r) (l_end_time r))
                                         leases_q)
           in if lease_conflict \<noteq> None then Inl (ResourceTimeConflict r_uuid r_type)
              else if \<not> is_owner_change then Inr ()
              else
                let ocs = filter (\<lambda>r. oc_resource_uuid r = r_uuid \<and> oc_resource_type r = r_type
                                    \<and> oc_status r \<in> set [CREATED, ACTIVE]) (owner_changes db);
                    oc_conflict = first (filter (\<lambda>r. time_conflict start end (oc_start_time r) (oc_end_time r))
                                           ocs)
                in if oc_conflict \<noteq> None then Inl (ResourceTimeConflict r_uuid r_type)
                   else Inr ())"


text \<open>The query of \<^verbatim>\<open>resource_check_admin\<close> for a window that straddles an owner change.\<close>

definition straddles :: "time \<Rightarrow> time \<Rightarrow> time \<Rightarrow> time \<Rightarrow> bool" where
  "straddles start_time end_time s e \<longleftrightarrow>
     (start_time \<ge> s \<and> start_time < e \<and> end_time > e) \<or>
     (start_time < s \<and> end_time > s \<and> end_time < e) \<or>
     (start_time \<le> s \<and> end_time \<ge> e)"

text \<open>The filters dictionary of \<^verbatim>\<open>owner_change_get_all\<close>: the four keys the function pops,
  and the two keys \<^verbatim>\<open>resource_check_admin\<close> leaves for \<^verbatim>\<open>filter_by\<close>. A key that is
  absent reads as \<^verbatim>\<open>None\<close>.\<close>

record oc_filters =
  f_resource_type :: "string option"
  f_resource_uuid :: "string option"
  f_start_time :: "time option"
  f_end_time :: "time option"
  f_status :: "status list option"
  f_from_or_to_owner_id :: "string option"

definition owner_change_get_all :: "store \<Rightarrow> oc_filters \<Rightarrow> owner_change list" where
  "owner_change_get_all db filters =
     (let q0 = filter (\<lambda>r. (case f_resource_type filters of None \<Rightarrow> True
                                | Some t \<Rightarrow> oc_resource_type r = t)
                           \<and> (case f_resource_uuid filters of None \<Rightarrow> True
                                | Some u \<Rightarrow> oc_resource_uuid r = u)) (owner_changes db);
          q1 = (case f_status filters of
                  None \<Rightarrow> q0
                | Some st \<Rightarrow> if st = [] then q0 else filter (\<lambda>r. oc_status r \<in> set st) q0);
          q2 = (case (f_start_time filters, f_end_time filters) of
                  (Some start, Some end) \<Rightarrow>
                     filter (\<lambda>r. start \<ge> oc_start_time r \<and> end \<le> oc_end_time r) q1
                | _ \<Rightarrow> q1)
      in case f_from_or_to_owner_id filters of
           None \<Rightarrow> q2
         | Some p \<Rightarrow> if p = [] then q2
                     else filter (\<lambda>r. p = oc_from_owner_id r \<or> p = oc_to_owner_id r) q2)"

definition resource_check_admin ::
  "store \<Rightarrow> string \<Rightarrow> string \<Rightarrow> time \<Rightarrow> time \<Rightarrow> string \<Rightarrow> string \<Rightarrow> bool" where
  "resource_check_admin db resource_type resource_uuid start_time end_time
       default_admin_project_id project_id =
     (let ocs_conflicts =
            filter (\<lambda>r. straddles start_time end_time (oc_start_time r) (oc_end_time r))
              (filter (\<lambda>r. oc_resource_uuid r = resource_uuid \<and> oc_resource_type r = resource_type
                          \<and> oc_status r \<in> set [CREATED, ACTIVE]) (owner_changes db))
      in if length ocs_conflicts > 0 then False
         else
           let ocs = owner_change_get_all db
                       \<lparr>f_resource_type = Some resource_type, f_resource_uuid = Some resource_uuid,
                        f_start_time = Some start_time, f_end_time = Some end_time,
                        f_status = Some [CREATED, ACTIVE], f_from_or_to_owner_id = None\<rparr>
           in if length ocs > 1 then False
              else if length ocs = 1 then project_id = oc_to_owner_id (hd ocs)
              else project_id = default_admin_project_id)"

text \<open>The owner changes that the first query of \<^verbatim>\<open>resource_check_admin\<close> selects, and the
  ones that \<^verbatim>\<open>owner_change_get_all\<close> selects for it: those whose interval contains the
  window.\<close>

definition straddling_changes :: "store \<Rightarrow> string \<Rightarrow> string \<Rightarrow> time \<Rightarrow> time \<Rightarrow> owner_change list" where
  "straddling_changes db resource_type resource_uuid start_time end_time =
     filter (\<lambda>r. oc_resource_uuid r = resource_uuid \<and> oc_resource_type r = resource_type
                 \<and> (oc_status r = CREATED \<or> oc_status r = ACTIVE)
                 \<and> ((start_time \<ge> oc_start_time r \<and> start_time < oc_end_time r
                        \<and> end_time > oc_end_time r)
                    \<or> (start_time < oc_start_time r \<and> end_time > oc_start_time r
                        \<and> end_time < oc_end_time r)
                    \<or> (start_time \<le> oc_start_time r \<and> end_time \<ge> oc_end_time r)))
       (owner_changes db)"

definition changes_containing_window ::
  "store \<Rightarrow> string \<Rightarrow> string \<Rightarrow> time \<Rightarrow> time \<Rightarrow> owner_change list" where
  "changes_containing_window db resource_type resource_uuid start_time end_time =
     filter (\<lambda>r. oc_resource_uuid r = resource_uuid \<and> oc_resource_type r = resource_type
                 \<and> (oc_status r = CREATED \<or> oc_status r = ACTIVE)
                 \<and> oc_start_time r \<le> start_time \<and> end_time \<le> oc_end_time r)
       (owner_changes db)"

text \<open>The selection in the words of section 4.4 of the specification, step 2: the owner
  changes whose interval is wholly contained within the window, bounds included.\<close>

definition spec_changes_within_window ::
  "store \<Rightarrow> string \<Rightarrow> string \<Rightarrow> time \<Rightarrow> time \<Rightarrow> owner_change list" where
  "spec_changes_within_window db resource_type resource_uuid window_start window_end =
     filter (\<lambda>r. oc_resource_uuid r = resource_uuid \<and> oc_resource_type r = resource_type
                 \<and> (oc_status r = CREATED \<or> oc_status r = ACTIVE)
                 \<and> window_start \<le> oc_start_time r \<and> window_end \<ge> oc_end_time r)
       (owner_changes db)"

subsection \<open>Offers\<close>

text \<open>\<^verbatim>\<open>offer_get_conflict_times\<close>: the leases are joined with the offers on the foreign key
  \<^verbatim>\<open>Lease.offer_uuid\<close>, filtered and ordered by start time.\<close>

definition offer_get_conflict_times :: "store \<Rightarrow> offer \<Rightarrow> (time \<times> time) list" where
  "offer_get_conflict_times db offer_ref =
     map (\<lambda>r. (l_start_time r, l_end_time r))
       (sort_key l_start_time
          (filter (\<lambda>r. l_offer_uuid r = Some (o_uuid offer_ref)
                      \<and> (l_status r = CREATED \<or> l_status r = ACTIVE))
             (concat (map (\<lambda>r. map (\<lambda>q. r)
                                  (filter (\<lambda>q. l_offer_uuid r = Some (o_uuid q)) (offers db)))
                        (leases db)))))"

text \<open>\<^verbatim>\<open>offer_get_first_availability\<close>: the result row holds the start time only.\<close>

definition offer_get_first_availability :: "store \<Rightarrow> string \<Rightarrow> time \<Rightarrow> time option" where
  "offer_get_first_availability db offer_uuid start =
     map_option l_start_time
       (first (filter (\<lambda>r. l_end_time r \<ge> start)
                 (sort_key l_start_time
                    (filter (\<lambda>r. l_offer_uuid r = Some offer_uuid
                                \<and> (l_status r = CREATED \<or> l_status r = ACTIVE)) (leases db)))))"

definition offer_verify_availability :: "store \<Rightarrow> offer \<Rightarrow> time \<Rightarrow> time \<Rightarrow> error + unit" where
  "offer_verify_availability db offer_ref start end =
     (if start < o_start_time offer_ref \<or> end > o_end_time offer_ref
      then Inl (OfferNoTimeAvailabilities (o_uuid offer_ref) start end)
      else
        let leases_q = filter (\<lambda>r. l_offer_uuid r = Some (o_uuid offer_ref)
                                  \<and> (l_status r = CREATED \<or> l_status r = ACTIVE)) (leases db);
            conflict = first (filter (\<lambda>r. time_conflict start end (l_start_time r) (l_end_time r))
                                leases_q)
        in if conflict \<noteq> None then Inl (OfferNoTimeAvailabilities (o_uuid offer_ref) start end)
           else Inr ())"

text \<open>The end-time resolution of \<^verbatim>\<open>OffersController.claim\<close>. The request's lease carries
  optional times; \<open>now\<close> stands for \<^verbatim>\<open>datetime.datetime.now()\<close>. The method
  \<^verbatim>\<open>Offer.get_first_availability\<close> it calls hands the offer's uuid and the start time to
  \<^verbatim>\<open>offer_get_first_availability\<close>. The result is the pair of the lease's times.\<close>

definition claim_times ::
  "store \<Rightarrow> offer \<Rightarrow> time \<Rightarrow> time option \<Rightarrow> time option \<Rightarrow> time \<times> time" where
  "claim_times db offer now req_start req_end =
     (let start_time = (case req_start of None \<Rightarrow> now | Some t \<Rightarrow> t);
          end_time = (case req_end of
                        Some t \<Rightarrow> t
                      | None \<Rightarrow>
                          (case offer_get_first_availability db (o_uuid offer) start_time of
                             None \<Rightarrow> o_end_time offer
                           | Some q \<Rightarrow> q))
      in (start_time, end_time))"

subsection \<open>The availability calculator\<close>

text \<open>
  Modelled from the spec: \<^verbatim>\<open>Offer.get_availabilities\<close> of \<^verbatim>\<open>esi_leap/objects/offer.py\<close> is
  not among the source files of this development. Section 4.2 of the specification gives its algorithm: a
  cursor that starts at the offer's start; for each occupied interval \<open>[s, e)\<close> the gap
  \<open>[cursor, s)\<close> is emitted if \<open>cursor < s\<close>, and the cursor advances to \<open>max cursor e\<close>;
  after the scan the gap \<open>[cursor, O.end)\<close> is emitted if \<open>cursor < O.end\<close>. The loop state
  is the cursor and the gaps emitted so far.
\<close>

fun availability_scan ::
  "time \<Rightarrow> (time \<times> time) list \<Rightarrow> (time \<times> time) list \<Rightarrow> time \<times> (time \<times> time) list" where
  "availability_scan cursor gaps [] = (cursor, gaps)"
| "availability_scan cursor gaps ((s, e) # occupied) =
     availability_scan (max cursor e) (if cursor < s then gaps @ [(cursor, s)] else gaps) occupied"

definition availability_gaps :: "time \<Rightarrow> time \<Rightarrow> (time \<times> time) list \<Rightarrow> (time \<times> time) list" where
  "availability_gaps o_start o_end occupied =
     (case availability_scan o_start [] occupied of
        (cursor, gaps) \<Rightarrow> if cursor < o_end then gaps @ [(cursor, o_end)] else gaps)"

definition get_availabilities :: "store \<Rightarrow> offer \<Rightarrow> (time \<times> time) list" where
  "get_availabilities db offer_ref =
     availability_gaps (o_start_time offer_ref) (o_end_time offer_ref)
       (offer_get_conflict_times db offer_ref)"

subsection \<open>Updates\<close>

text \<open>
  The \<open>values\<close> dictionary of an update binds column names to new values; a column that is
  not a key reads as \<^verbatim>\<open>None\<close> through \<^verbatim>\<open>values.get\<close>. The nullable columns
  (\<^verbatim>\<open>lessee_id\<close>, \<^verbatim>\<open>offer_uuid\<close>) can be bound to \<^verbatim>\<open>None\<close>. \<^verbatim>\<open>ModelBase.update\<close> sets
  every key of the dictionary on the row.
\<close>

record offer_values =
  ov_uuid :: "string option"
  ov_project_id :: "string option"
  ov_lessee_id :: "string option option"
  ov_name :: "string option"
  ov_resource_type :: "string option"
  ov_resource_uuid :: "string option"
  ov_start_time :: "time option"
  ov_end_time :: "time option"
  ov_status :: "status option"
  ov_properties :: "(string \<times> string) list option"

record lease_values =
  lv_uuid :: "string option"
  lv_project_id :: "string option"
  lv_owner_id :: "string option"
  lv_offer_uuid :: "string option option"
  lv_name :: "string option"
  lv_resource_type :: "string option"
  lv_resource_uuid :: "string option"
  lv_start_time :: "time option"
  lv_end_time :: "time option"
  lv_status :: "status option"
  lv_properties :: "(string \<times> string) list option"

record owner_change_values =
  ocv_uuid :: "string option"
  ocv_from_owner_id :: "string option"
  ocv_to_owner_id :: "string option"
  ocv_resource_type :: "string option"
  ocv_resource_uuid :: "string option"
  ocv_start_time :: "time option"
  ocv_end_time :: "time option"
  ocv_status :: "status option"

text \<open>One \<^verbatim>\<open>setattr\<close> of \<^verbatim>\<open>ModelBase.update\<close>: the new value if the key is bound.\<close>

definition setattr :: "'a option \<Rightarrow> 'a \<Rightarrow> 'a" where
  "setattr v old = (case v of None \<Rightarrow> old | Some x \<Rightarrow> x)"

definition offer_row_update :: "offer_values \<Rightarrow> offer \<Rightarrow> offer" where
  "offer_row_update values r =
     r\<lparr>o_uuid := setattr (ov_uuid values) (o_uuid r),
       o_project_id := setattr (ov_project_id values) (o_project_id r),
       o_lessee_id := setattr (ov_lessee_id values) (o_lessee_id r),
       o_name := setattr (ov_name values) (o_name r),
       o_resource_type := setattr (ov_resource_type values) (o_resource_type r),
       o_resource_uuid := setattr (ov_resource_uuid values) (o_resource_uuid r),
       o_start_time := setattr (ov_start_time values) (o_start_time r),
       o_end_time := setattr (ov_end_time values) (o_end_time r),
       o_status := setattr (ov_status values) (o_status r),
       o_properties := setattr (ov_properties values) (o_properties r)\<rparr>"

definition lease_row_update :: "lease_values \<Rightarrow> lease \<Rightarrow> lease" where
  "lease_row_update values r =
     r\<lparr>l_uuid := setattr (lv_uuid values) (l_uuid r),
       l_project_id := setattr (lv_project_id values) (l_project_id r),
       l_owner_id := setattr (lv_owner_id values) (l_owner_id r),
       l_offer_uuid := setattr (lv_offer_uuid values) (l_offer_uuid r),
       l_name := setattr (lv_name values) (l_name r),
       l_resource_type := setattr (lv_resource_type values) (l_resource_type r),
       l_resource_uuid := setattr (lv_resource_uuid values) (l_resource_uuid r),
       l_start_time := setattr (lv_start_time values) (l_start_time r),
       l_end_time := setattr (lv_end_time values) (l_end_time r),
       l_status := setattr (lv_status values) (l_status r),
       l_properties := setattr (lv_properties values) (l_properties r)\<rparr>"

definition owner_change_row_update :: "owner_change_values \<Rightarrow> owner_change \<Rightarrow> owner_change" where
  "owner_change_row_update values r =
     r\<lparr>oc_uuid := setattr (ocv_uuid values) (oc_uuid r),
       oc_from_owner_id := setattr (ocv_from_owner_id values) (oc_from_owner_id r),
       oc_to_owner_id := setattr (ocv_to_owner_id values) (oc_to_owner_id r),
       oc_resource_type := setattr (ocv_resource_type values) (oc_resource_type r),
       oc_resource_uuid := setattr (ocv_resource_uuid values) (oc_resource_uuid r),
       oc_start_time := setattr (ocv_start_time values) (oc_start_time r),
       oc_end_time := setattr (ocv_end_time values) (oc_end_time r),
       oc_status := setattr (ocv_status values) (oc_status r)\<rparr>"

text \<open>The effective bound of an update: the value bound in the dictionary, else the column
  of the row that was looked up, which is an attribute read on \<^verbatim>\<open>None\<close> when no row was
  found.\<close>

definition effective_bound :: "time option \<Rightarrow> 'r option \<Rightarrow> ('r \<Rightarrow> time) \<Rightarrow> error + time" where
  "effective_bound v ref col =
     (case v of
        Some t \<Rightarrow> Inr t
      | None \<Rightarrow> (case ref of None \<Rightarrow> Inl AttributeError | Some r \<Rightarrow> Inr (col r)))"

text \<open>
  An update or a destroy returns the store it leaves behind together with its result: the
  exception raised, or the value returned. The row object that an update looked up is
  changed in place and flushed; it is the row of the table with that uuid.
\<close>

definition offer_update :: "store \<Rightarrow> string \<Rightarrow> offer_values \<Rightarrow> store \<times> (error + offer)" where
  "offer_update db offer_uuid values0 =
     (case one_or_none (filter (\<lambda>r. o_uuid r = offer_uuid) (offers db)) of
        Inl err \<Rightarrow> (db, Inl err)
      | Inr offer_ref \<Rightarrow>
          let values = values0\<lparr>ov_uuid := None, ov_project_id := None\<rparr> in
          (case effective_bound (ov_start_time values) offer_ref o_start_time of
             Inl err \<Rightarrow> (db, Inl err)
           | Inr start \<Rightarrow>
               (case effective_bound (ov_end_time values) offer_ref o_end_time of
                  Inl err \<Rightarrow> (db, Inl err)
                | Inr end \<Rightarrow>
                    if start \<ge> end then (db, Inl (InvalidTimeRange ''an offer'' start end))
                    else (case offer_ref of
                            None \<Rightarrow> (db, Inl AttributeError)
                          | Some r \<Rightarrow>
                              let r' = offer_row_update values r
                              in (db\<lparr>offers := map (\<lambda>x. if o_uuid x = offer_uuid then r' else x)
                                                   (offers db)\<rparr>, Inr r')))))"

definition lease_update :: "store \<Rightarrow> string \<Rightarrow> lease_values \<Rightarrow> store \<times> (error + lease)" where
  "lease_update db lease_uuid values0 =
     (case one_or_none (filter (\<lambda>r. l_uuid r = lease_uuid) (leases db)) of
        Inl err \<Rightarrow> (db, Inl err)
      | Inr lease_ref \<Rightarrow>
          let values = values0\<lparr>lv_uuid := None, lv_project_id := None\<rparr> in
          (case effective_bound (lv_start_time values) lease_ref l_start_time of
             Inl err \<Rightarrow> (db, Inl err)
           | Inr start \<Rightarrow>
               (case effective_bound (lv_end_time values) lease_ref l_end_time of
                  Inl err \<Rightarrow> (db, Inl err)
                | Inr end \<Rightarrow>
                    if start \<ge> end then (db, Inl (InvalidTimeRange ''a lease'' start end))
                    else (case lease_ref of
                            None \<Rightarrow> (db, Inl AttributeError)
                          | Some r \<Rightarrow>
                              let r' = lease_row_update values r
                              in (db\<lparr>leases := map (\<lambda>x. if l_uuid x = lease_uuid then r' else x)
                                                   (leases db)\<rparr>, Inr r')))))"

definition owner_change_update ::
  "store \<Rightarrow> string \<Rightarrow> owner_change_values \<Rightarrow> store \<times> (error + owner_change)" where
  "owner_change_update db owner_change_uuid values0 =
     (case one_or_none (filter (\<lambda>r. oc_uuid r = owner_change_uuid) (owner_changes db)) of
        Inl err \<Rightarrow> (db, Inl err)
      | Inr owner_change_ref \<Rightarrow>
          let values = values0\<lparr>ocv_uuid := None, ocv_from_owner_id := None, ocv_to_owner_id := None,
                               ocv_resource_type := None, ocv_resource_uuid := None\<rparr> in
          (case effective_bound (ocv_start_time values) owner_change_ref oc_start_time of
             Inl err \<Rightarrow> (db, Inl err)
           | Inr start \<Rightarrow>
               (case effective_bound (ocv_end_time values) owner_change_ref oc_end_time of
                  Inl err \<Rightarrow> (db, Inl err)
                | Inr end \<Rightarrow>
                    if start \<ge> end then (db, Inl (InvalidTimeRange ''an owner_change'' start end))
                    else (case owner_change_ref of
                            None \<Rightarrow> (db, Inl AttributeError)
                          | Some r \<Rightarrow>
                              let r' = owner_change_row_update values r
                              in (db\<lparr>owner_changes :=
                                       map (\<lambda>x. if oc_uuid x = owner_change_uuid then r' else x)
                                         (owner_changes db)\<rparr>, Inr r')))))"

subsection \<open>Destroys\<close>

text \<open>
  A query is the predicate its filters accumulate; \<^verbatim>\<open>model_query\<close> starts from the whole
  table, \<^verbatim>\<open>filter_by\<close> returns a new query and leaves the old one as it was, and
  \<^verbatim>\<open>Query.delete()\<close> removes the rows the query selects.
  \<^verbatim>\<open>offer_destroy\<close> deletes through a fresh query filtered by the uuid;
  \<^verbatim>\<open>lease_destroy\<close> and \<^verbatim>\<open>owner_change_destroy\<close> call \<^verbatim>\<open>delete()\<close> on the variable
  \<^verbatim>\<open>query\<close>, the query without the uuid filter.
\<close>

definition delete_rows :: "('a \<Rightarrow> bool) \<Rightarrow> 'a list \<Rightarrow> 'a list" where
  "delete_rows query rows = filter (\<lambda>r. \<not> query r) rows"

definition offer_destroy :: "store \<Rightarrow> string \<Rightarrow> store \<times> (error + unit)" where
  "offer_destroy db offer_uuid =
     (let query = (\<lambda>r::offer. True) in
      case one_or_none (filter (\<lambda>r. query r \<and> o_uuid r = offer_uuid) (offers db)) of
        Inl err \<Rightarrow> (db, Inl err)
      | Inr None \<Rightarrow> (db, Inl (OfferNotFound offer_uuid))
      | Inr (Some offer_ref) \<Rightarrow>
          (db\<lparr>offers := delete_rows (\<lambda>r. o_uuid r = offer_uuid) (offers db)\<rparr>, Inr ()))"

definition lease_destroy :: "store \<Rightarrow> string \<Rightarrow> store \<times> (error + unit)" where
  "lease_destroy db lease_uuid =
     (let query = (\<lambda>r::lease. True) in
      case one_or_none (filter (\<lambda>r. query r \<and> l_uuid r = lease_uuid) (leases db)) of
        Inl err \<Rightarrow> (db, Inl err)
      | Inr None \<Rightarrow> (db, Inl (LeaseNotFound lease_uuid))
      | Inr (Some lease_ref) \<Rightarrow> (db\<lparr>leases := delete_rows query (leases db)\<rparr>, Inr ()))"

definition owner_change_destroy :: "store \<Rightarrow> string \<Rightarrow> store \<times> (error + unit)" where
  "owner_change_destroy db owner_change_uuid =
     (let query = (\<lambda>r::owner_change. True) in
      case one_or_none (filter (\<lambda>r. query r \<and> oc_uuid r = owner_change_uuid) (owner_changes db)) of
        Inl err \<Rightarrow> (db, Inl err)
      | Inr None \<Rightarrow> (db, Inl (OwnerChangeNotFound owner_change_uuid))
      | Inr (Some owner_change_ref) \<Rightarrow>
          (db\<lparr>owner_changes := delete_rows query (owner_changes db)\<rparr>, Inr ()))"

subsection \<open>Example rows\<close>

text \<open>Rows after the fixtures of \<^verbatim>\<open>tests/db/sqlalchemy/test_api.py\<close>, with times counted in
  days from the fixtures' \<^verbatim>\<open>now\<close>.\<close>

definition mk_offer :: "string \<Rightarrow> time \<Rightarrow> time \<Rightarrow> status \<Rightarrow> offer" where
  "mk_offer u s e st =
     \<lparr>o_uuid = u, o_project_id = ''0wn3r'', o_lessee_id = None, o_name = ''o1'',
      o_resource_type = ''dummy_node'', o_resource_uuid = ''1111'',
      o_start_time = s, o_end_time = e, o_status = st, o_properties = [(''foo'', ''bar'')]\<rparr>"

definition mk_lease :: "string \<Rightarrow> string option \<Rightarrow> time \<Rightarrow> time \<Rightarrow> status \<Rightarrow> lease" where
  "mk_lease u ou s e st =
     \<lparr>l_uuid = u, l_project_id = ''1e5533'', l_owner_id = ''0wn3r'', l_offer_uuid = ou,
      l_name = ''l1'', l_resource_type = ''dummy_node'', l_resource_uuid = ''1111'',
      l_start_time = s, l_end_time = e, l_status = st, l_properties = []\<rparr>"

definition mk_owner_change :: "string \<Rightarrow> string \<Rightarrow> time \<Rightarrow> time \<Rightarrow> status \<Rightarrow> owner_change" where
  "mk_owner_change u to_owner s e st =
     \<lparr>oc_uuid = u, oc_from_owner_id = ''owner1'', oc_to_owner_id = to_owner,
      oc_resource_type = ''dummy_node'', oc_resource_uuid = ''1111'',
      oc_start_time = s, oc_end_time = e, oc_status = st\<rparr>"

definition db_one_offer :: store where
  "db_one_offer = \<lparr>offers = [mk_offer ''44444'' 50 60 AVAILABLE], leases = [], owner_changes = []\<rparr>"

definition db_owner_change :: store where
  "db_owner_change =
     \<lparr>offers = [], leases = [],
      owner_changes = [mk_owner_change ''11111'' ''owner2'' 10 20 CREATED]\<rparr>"

definition db_offer_leases :: store where
  "db_offer_leases =
     \<lparr>offers = [mk_offer ''11111'' 0 100 AVAILABLE],
      leases = [mk_lease ''11111'' (Some ''11111'') 10 20 CREATED,
                mk_lease ''22222'' (Some ''11111'') 20 30 CREATED,
                mk_lease ''33333'' (Some ''11111'') 50 60 ACTIVE,
                mk_lease ''44444'' (Some ''11111'') 85 90 CANCELLED],
      owner_changes = []\<rparr>"

definition db_two_owner_changes :: store where
  "db_two_owner_changes =
     \<lparr>offers = [mk_offer ''11111'' 0 100 AVAILABLE],
      leases = [mk_lease ''11111'' (Some ''11111'') 10 20 CREATED],
      owner_changes = [mk_owner_change ''11111'' ''owner2'' 10 20 CREATED,
                       mk_owner_change ''22222'' ''owner3'' 30 40 ACTIVE]\<rparr>"

text \<open>The empty \<open>values\<close> dictionaries.\<close>

definition no_offer_values :: offer_values where
  "no_offer_values =
     \<lparr>ov_uuid = None, ov_project_id = None, ov_lessee_id = None, ov_name = None,
      ov_resource_type = None, ov_resource_uuid = None, ov_start_time = None,
      ov_end_time = None, ov_status = None, ov_properties = None\<rparr>"

definition no_lease_values :: lease_values where
  "no_lease_values =
     \<lparr>lv_uuid = None, lv_project_id = None, lv_owner_id = None, lv_offer_uuid = None,
      lv_name = None, lv_resource_type = None, lv_resource_uuid = None, lv_start_time = None,
      lv_end_time = None, lv_status = None, lv_properties = None\<rparr>"

definition no_owner_change_values :: owner_change_values where
  "no_owner_change_values =
     \<lparr>ocv_uuid = None, ocv_from_owner_id = None, ocv_to_owner_id = None,
      ocv_resource_type = None, ocv_resource_uuid = None, ocv_start_time = None,
      ocv_end_time = None, ocv_status = None\<rparr>"

section \<open>Properties\<close>

subsection \<open>Helper facts about queries\<close>

lemma first_eq_None: "first rows = None \<longleftrightarrow> rows = []"
  by (cases rows) (simp_all add: first_def)

subsection \<open>The conflict checker\<close>

lemma rva_no_owner_change:
  "resource_verify_availability db r_type r_uuid start end False =
     (if (\<exists>r \<in> set (offers db). o_resource_uuid r = r_uuid \<and> o_resource_type r = r_type
              \<and> o_status r = AVAILABLE
              \<and> time_conflict start end (o_start_time r) (o_end_time r))
       \<or> (\<exists>r \<in> set (leases db). l_resource_uuid r = r_uuid \<and> l_resource_type r = r_type
              \<and> (l_status r = CREATED \<or> l_status r = ACTIVE)
              \<and> time_conflict start end (l_start_time r) (l_end_time r))
      then Inl (ResourceTimeConflict r_uuid r_type) else Inr ())"
  unfolding resource_verify_availability_def Let_def first_eq_None
  by (simp add: filter_empty_conv)

lemma time_conflict_touch:
  "start < end \<Longrightarrow> s < e \<Longrightarrow> end \<le> s \<or> e \<le> start \<Longrightarrow> \<not> time_conflict start end s e"
  unfolding time_conflict_def by arith

text \<open>
  Claim C1. Called with \<open>is_owner_change = False\<close>, \<^verbatim>\<open>resource_verify_availability\<close> raises
  \<^verbatim>\<open>ResourceTimeConflict\<close> exactly when an \<open>AVAILABLE\<close> offer or a \<open>CREATED\<close> or \<open>ACTIVE\<close>
  lease on the resource has an interval \<open>[s, e)\<close> with
  \<open>(start \<ge> s \<and> start < e) \<or> (end > s \<and> end \<le> e) \<or> (start \<le> s \<and> end \<ge> e)\<close>, and returns
  otherwise. A non-empty candidate window that lies before or after every stored non-empty
  interval, touching it at a boundary (\<open>end = s\<close> or \<open>start = e\<close>) at most, does not raise.
\<close>

theorem resource_verify_availability_conflict_iff:
  "resource_verify_availability db r_type r_uuid start end False =
     (if (\<exists>r \<in> set (offers db). o_resource_uuid r = r_uuid \<and> o_resource_type r = r_type
              \<and> o_status r = AVAILABLE
              \<and> ((start \<ge> o_start_time r \<and> start < o_end_time r)
                 \<or> (end > o_start_time r \<and> end \<le> o_end_time r)
                 \<or> (start \<le> o_start_time r \<and> end \<ge> o_end_time r)))
       \<or> (\<exists>r \<in> set (leases db). l_resource_uuid r = r_uuid \<and> l_resource_type r = r_type
              \<and> (l_status r = CREATED \<or> l_status r = ACTIVE)
              \<and> ((start \<ge> l_start_time r \<and> start < l_end_time r)
                 \<or> (end > l_start_time r \<and> end \<le> l_end_time r)
                 \<or> (start \<le> l_start_time r \<and> end \<ge> l_end_time r)))
      then Inl (ResourceTimeConflict r_uuid r_type) else Inr ())
   \<and> (start < end
        \<and> (\<forall>r \<in> set (offers db). o_start_time r < o_end_time r
               \<and> (end \<le> o_start_time r \<or> o_end_time r \<le> start))
        \<and> (\<forall>r \<in> set (leases db). l_start_time r < l_end_time r
               \<and> (end \<le> l_start_time r \<or> l_end_time r \<le> start))
      \<longrightarrow> resource_verify_availability db r_type r_uuid start end False = Inr ())"
proof (intro conjI impI)
  show "resource_verify_availability db r_type r_uuid start end False =
     (if (\<exists>r \<in> set (offers db). o_resource_uuid r = r_uuid \<and> o_resource_type r = r_type
              \<and> o_status r = AVAILABLE
              \<and> ((start \<ge> o_start_time r \<and> start < o_end_time r)
                 \<or> (end > o_start_time r \<and> end \<le> o_end_time r)
                 \<or> (start \<le> o_start_time r \<and> end \<ge> o_end_time r)))
       \<or> (\<exists>r \<in> set (leases db). l_resource_uuid r = r_uuid \<and> l_resource_type r = r_type
              \<and> (l_status r = CREATED \<or> l_status r = ACTIVE)
              \<and> ((start \<ge> l_start_time r \<and> start < l_end_time r)
                 \<or> (end > l_start_time r \<and> end \<le> l_end_time r)
                 \<or> (start \<le> l_start_time r \<and> end \<ge> l_end_time r)))
      then Inl (ResourceTimeConflict r_uuid r_type) else Inr ())"
    unfolding rva_no_owner_change time_conflict_def ..
next
  assume h: "start < end
        \<and> (\<forall>r \<in> set (offers db). o_start_time r < o_end_time r
               \<and> (end \<le> o_start_time r \<or> o_end_time r \<le> start))
        \<and> (\<forall>r \<in> set (leases db). l_start_time r < l_end_time r
               \<and> (end \<le> l_start_time r \<or> l_end_time r \<le> start))"
  have "\<forall>r \<in> set (offers db). \<not> time_conflict start end (o_start_time r) (o_end_time r)"
    using h time_conflict_touch by blast
  moreover have "\<forall>r \<in> set (leases db). \<not> time_conflict start end (l_start_time r) (l_end_time r)"
    using h time_conflict_touch by blast
  ultimately show "resource_verify_availability db r_type r_uuid start end False = Inr ()"
    unfolding rva_no_owner_change by auto
qed

text \<open>The examples of the specification: against the stored offer \<open>[50, 60)\<close> the candidate
  \<open>[45, 55)\<close> conflicts and the candidate \<open>[30, 50)\<close>, which touches it, does not.\<close>

theorem resource_verify_availability_conflict_iff_witness:
  "(30 :: time) < 50
   \<and> offers db_one_offer = [mk_offer ''44444'' 50 60 AVAILABLE]
   \<and> leases db_one_offer = []
   \<and> resource_verify_availability db_one_offer ''dummy_node'' ''1111'' 30 50 False = Inr ()
   \<and> resource_verify_availability db_one_offer ''dummy_node'' ''1111'' 45 55 False
       = Inl (ResourceTimeConflict ''1111'' ''dummy_node'')"
  using resource_verify_availability_conflict_iff [of db_one_offer "''dummy_node''" "''1111''" 30 50]
    resource_verify_availability_conflict_iff [of db_one_offer "''dummy_node''" "''1111''" 45 55]
  by (simp add: db_one_offer_def mk_offer_def)

lemma rva_owner_change:
  "resource_verify_availability db r_type r_uuid start end True =
     (if (\<exists>r \<in> set (offers db). o_resource_uuid r = r_uuid \<and> o_resource_type r = r_type
              \<and> o_status r = AVAILABLE
              \<and> time_conflict start end (o_start_time r) (o_end_time r))
       \<or> (\<exists>r \<in> set (leases db). l_resource_uuid r = r_uuid \<and> l_resource_type r = r_type
              \<and> (l_status r = CREATED \<or> l_status r = ACTIVE)
              \<and> time_conflict start end (l_start_time r) (l_end_time r))
       \<or> (\<exists>r \<in> set (owner_changes db). oc_resource_uuid r = r_uuid \<and> oc_resource_type r = r_type
              \<and> (oc_status r = CREATED \<or> oc_status r = ACTIVE)
              \<and> time_conflict start end (oc_start_time r) (oc_end_time r))
      then Inl (ResourceTimeConflict r_uuid r_type) else Inr ())"
  unfolding resource_verify_availability_def Let_def first_eq_None
  by (simp add: filter_empty_conv)

text \<open>
  Claim C8. Called with \<open>is_owner_change = False\<close>, the outcome of
  \<^verbatim>\<open>resource_verify_availability\<close> does not depend on the owner-change rows: two stores
  with the same offers and the same leases give the same result. Called with
  \<open>is_owner_change = True\<close>, a \<open>CREATED\<close> or \<open>ACTIVE\<close> owner change on the resource that
  overlaps the candidate window makes it raise \<^verbatim>\<open>ResourceTimeConflict\<close>.
\<close>

theorem resource_verify_availability_owner_change_asymmetry:
  "(offers db1 = offers db2 \<and> leases db1 = leases db2
      \<longrightarrow> resource_verify_availability db1 r_type r_uuid start end False
          = resource_verify_availability db2 r_type r_uuid start end False)
   \<and> ((\<exists>r \<in> set (owner_changes db1). oc_resource_uuid r = r_uuid \<and> oc_resource_type r = r_type
              \<and> (oc_status r = CREATED \<or> oc_status r = ACTIVE)
              \<and> ((start \<ge> oc_start_time r \<and> start < oc_end_time r)
                 \<or> (end > oc_start_time r \<and> end \<le> oc_end_time r)
                 \<or> (start \<le> oc_start_time r \<and> end \<ge> oc_end_time r)))
      \<longrightarrow> resource_verify_availability db1 r_type r_uuid start end True
          = Inl (ResourceTimeConflict r_uuid r_type))"
proof (intro conjI impI)
  assume "offers db1 = offers db2 \<and> leases db1 = leases db2"
  then show "resource_verify_availability db1 r_type r_uuid start end False
          = resource_verify_availability db2 r_type r_uuid start end False"
    unfolding rva_no_owner_change by simp
next
  assume "\<exists>r \<in> set (owner_changes db1). oc_resource_uuid r = r_uuid \<and> oc_resource_type r = r_type
              \<and> (oc_status r = CREATED \<or> oc_status r = ACTIVE)
              \<and> ((start \<ge> oc_start_time r \<and> start < oc_end_time r)
                 \<or> (end > oc_start_time r \<and> end \<le> oc_end_time r)
                 \<or> (start \<le> oc_start_time r \<and> end \<ge> oc_end_time r))"
  then have "\<exists>r \<in> set (owner_changes db1). oc_resource_uuid r = r_uuid \<and> oc_resource_type r = r_type
              \<and> (oc_status r = CREATED \<or> oc_status r = ACTIVE)
              \<and> time_conflict start end (oc_start_time r) (oc_end_time r)"
    unfolding time_conflict_def .
  then show "resource_verify_availability db1 r_type r_uuid start end True
          = Inl (ResourceTimeConflict r_uuid r_type)"
    unfolding rva_owner_change by simp
qed

text \<open>The test \<^verbatim>\<open>test_resource_verify_availability_owner_change_conflict\<close>: with the owner
  change \<open>[10, 20)\<close> stored, the window \<open>[11, 25)\<close> is free for an offer or a lease and
  conflicts for an owner change.\<close>

theorem resource_verify_availability_owner_change_asymmetry_witness:
  "offers db_owner_change = offers (db_owner_change\<lparr>owner_changes := []\<rparr>)
   \<and> leases db_owner_change = leases (db_owner_change\<lparr>owner_changes := []\<rparr>)
   \<and> resource_verify_availability db_owner_change ''dummy_node'' ''1111'' 11 25 False = Inr ()
   \<and> resource_verify_availability (db_owner_change\<lparr>owner_changes := []\<rparr>)
        ''dummy_node'' ''1111'' 11 25 False = Inr ()
   \<and> (\<exists>r \<in> set (owner_changes db_owner_change).
         oc_resource_uuid r = ''1111'' \<and> oc_resource_type r = ''dummy_node''
         \<and> (oc_status r = CREATED \<or> oc_status r = ACTIVE)
         \<and> ((11 \<ge> oc_start_time r \<and> 11 < oc_end_time r)
            \<or> (25 > oc_start_time r \<and> 25 \<le> oc_end_time r)
            \<or> (11 \<le> oc_start_time r \<and> 25 \<ge> oc_end_time r)))
   \<and> resource_verify_availability db_owner_change ''dummy_node'' ''1111'' 11 25 True
        = Inl (ResourceTimeConflict ''1111'' ''dummy_node'')"
  using resource_verify_availability_owner_change_asymmetry
          [of db_owner_change "db_owner_change\<lparr>owner_changes := []\<rparr>" "''dummy_node''" "''1111''" 11 25]
  by (simp add: db_owner_change_def mk_owner_change_def rva_no_owner_change)

subsection \<open>Availability within an offer\<close>

lemma ova_eq:
  "offer_verify_availability db offer_ref start end =
     (if start < o_start_time offer_ref \<or> end > o_end_time offer_ref
         \<or> (\<exists>r \<in> set (leases db). l_offer_uuid r = Some (o_uuid offer_ref)
               \<and> (l_status r = CREATED \<or> l_status r = ACTIVE)
               \<and> time_conflict start end (l_start_time r) (l_end_time r))
      then Inl (OfferNoTimeAvailabilities (o_uuid offer_ref) start end) else Inr ())"
  unfolding offer_verify_availability_def Let_def first_eq_None
  by (simp add: filter_empty_conv)

text \<open>
  Claim C7. \<^verbatim>\<open>offer_verify_availability\<close> raises \<^verbatim>\<open>OfferNoTimeAvailabilities\<close> whenever
  \<open>start\<close> is before the offer's start or \<open>end\<close> is after the offer's end, whatever the
  leases are; for a window within the offer's interval it raises exactly when a \<open>CREATED\<close>
  or \<open>ACTIVE\<close> lease of the offer overlaps the window under the three-clause test.
\<close>

theorem offer_verify_availability_raises:
  "(start < o_start_time offer_ref \<or> end > o_end_time offer_ref
      \<longrightarrow> offer_verify_availability db offer_ref start end
          = Inl (OfferNoTimeAvailabilities (o_uuid offer_ref) start end))
   \<and> (o_start_time offer_ref \<le> start \<and> end \<le> o_end_time offer_ref
      \<longrightarrow> offer_verify_availability db offer_ref start end
          = (if \<exists>r \<in> set (leases db). l_offer_uuid r = Some (o_uuid offer_ref)
                   \<and> (l_status r = CREATED \<or> l_status r = ACTIVE)
                   \<and> ((start \<ge> l_start_time r \<and> start < l_end_time r)
                      \<or> (end > l_start_time r \<and> end \<le> l_end_time r)
                      \<or> (start \<le> l_start_time r \<and> end \<ge> l_end_time r))
             then Inl (OfferNoTimeAvailabilities (o_uuid offer_ref) start end) else Inr ()))"
  unfolding ova_eq time_conflict_def by auto

text \<open>Windows of \<^verbatim>\<open>test_offer_verify_availability\<close>: \<open>[90, 105)\<close> leaves the offer
  \<open>[0, 100)\<close> and fails though no lease overlaps it; \<open>[30, 50)\<close> lies between two leases;
  \<open>[86, 87)\<close> meets a cancelled lease only; \<open>[45, 55)\<close> overlaps the lease \<open>[50, 60)\<close>.\<close>

theorem offer_verify_availability_raises_witness:
  "((90 :: time) < o_start_time (mk_offer ''11111'' 0 100 AVAILABLE)
       \<or> (105 :: time) > o_end_time (mk_offer ''11111'' 0 100 AVAILABLE))
   \<and> offer_verify_availability db_offer_leases (mk_offer ''11111'' 0 100 AVAILABLE) 90 105
       = Inl (OfferNoTimeAvailabilities ''11111'' 90 105)
   \<and> (o_start_time (mk_offer ''11111'' 0 100 AVAILABLE) \<le> 30
       \<and> 50 \<le> o_end_time (mk_offer ''11111'' 0 100 AVAILABLE))
   \<and> offer_verify_availability db_offer_leases (mk_offer ''11111'' 0 100 AVAILABLE) 30 50 = Inr ()
   \<and> offer_verify_availability db_offer_leases (mk_offer ''11111'' 0 100 AVAILABLE) 86 87 = Inr ()
   \<and> offer_verify_availability db_offer_leases (mk_offer ''11111'' 0 100 AVAILABLE) 45 55
       = Inl (OfferNoTimeAvailabilities ''11111'' 45 55)"
  using offer_verify_availability_raises [of 90 "mk_offer ''11111'' 0 100 AVAILABLE" 105 db_offer_leases]
    offer_verify_availability_raises [of 30 "mk_offer ''11111'' 0 100 AVAILABLE" 50 db_offer_leases]
    offer_verify_availability_raises [of 86 "mk_offer ''11111'' 0 100 AVAILABLE" 87 db_offer_leases]
    offer_verify_availability_raises [of 45 "mk_offer ''11111'' 0 100 AVAILABLE" 55 db_offer_leases]
  by (simp add: db_offer_leases_def mk_offer_def mk_lease_def)

subsection \<open>The administration arbiter\<close>

lemma owner_change_get_all_window:
  "owner_change_get_all db
     \<lparr>f_resource_type = Some resource_type, f_resource_uuid = Some resource_uuid,
      f_start_time = Some start_time, f_end_time = Some end_time,
      f_status = Some [CREATED, ACTIVE], f_from_or_to_owner_id = None\<rparr>
   = changes_containing_window db resource_type resource_uuid start_time end_time"
  unfolding owner_change_get_all_def changes_containing_window_def Let_def
  by (auto intro!: filter_cong)

lemma rca_straddling:
  "filter (\<lambda>r. straddles start_time end_time (oc_start_time r) (oc_end_time r))
     (filter (\<lambda>r. oc_resource_uuid r = resource_uuid \<and> oc_resource_type r = resource_type
                 \<and> oc_status r \<in> set [CREATED, ACTIVE]) (owner_changes db))
   = straddling_changes db resource_type resource_uuid start_time end_time"
  unfolding straddling_changes_def straddles_def
  by (auto intro!: filter_cong)

lemma rca_eq:
  "resource_check_admin db resource_type resource_uuid start_time end_time
       default_admin_project_id project_id =
     (if straddling_changes db resource_type resource_uuid start_time end_time \<noteq> [] then False
      else case changes_containing_window db resource_type resource_uuid start_time end_time of
             [] \<Rightarrow> project_id = default_admin_project_id
           | [r] \<Rightarrow> project_id = oc_to_owner_id r
           | _ # _ # _ \<Rightarrow> False)"
  unfolding resource_check_admin_def Let_def rca_straddling owner_change_get_all_window
  by (auto split: list.splits)

lemma no_straddle_nothing_within:
  "straddling_changes db resource_type resource_uuid start_time end_time = []
   \<Longrightarrow> spec_changes_within_window db resource_type resource_uuid start_time end_time = []"
  unfolding straddling_changes_def spec_changes_within_window_def filter_empty_conv
  by blast

text \<open>
  Claim C3. \<^verbatim>\<open>resource_check_admin\<close> returns false whenever a \<open>CREATED\<close> or \<open>ACTIVE\<close>
  owner change on the resource straddles the window, whatever the candidate project is. With
  the single owner change \<open>[10, 20)\<close> to \<open>owner2\<close>, the window \<open>[11, 19)\<close> is granted to
  \<open>owner2\<close> and denied to \<open>owner1\<close>, and the window \<open>[9, 12)\<close> is denied to every candidate.
\<close>

theorem resource_check_admin_straddle_denied:
  "((\<exists>r \<in> set (owner_changes db). oc_resource_uuid r = resource_uuid
         \<and> oc_resource_type r = resource_type
         \<and> (oc_status r = CREATED \<or> oc_status r = ACTIVE)
         \<and> ((start_time \<ge> oc_start_time r \<and> start_time < oc_end_time r \<and> end_time > oc_end_time r)
            \<or> (start_time < oc_start_time r \<and> end_time > oc_start_time r \<and> end_time < oc_end_time r)
            \<or> (start_time \<le> oc_start_time r \<and> end_time \<ge> oc_end_time r)))
     \<longrightarrow> resource_check_admin db resource_type resource_uuid start_time end_time
           default_admin_project_id project_id = False)
   \<and> resource_check_admin db_owner_change ''dummy_node'' ''1111'' 11 19
        default_admin_project_id ''owner2'' = True
   \<and> resource_check_admin db_owner_change ''dummy_node'' ''1111'' 11 19
        default_admin_project_id ''owner1'' = False
   \<and> resource_check_admin db_owner_change ''dummy_node'' ''1111'' 9 12
        default_admin_project_id project_id = False"
proof (intro conjI impI)
  assume "\<exists>r \<in> set (owner_changes db). oc_resource_uuid r = resource_uuid
         \<and> oc_resource_type r = resource_type
         \<and> (oc_status r = CREATED \<or> oc_status r = ACTIVE)
         \<and> ((start_time \<ge> oc_start_time r \<and> start_time < oc_end_time r \<and> end_time > oc_end_time r)
            \<or> (start_time < oc_start_time r \<and> end_time > oc_start_time r \<and> end_time < oc_end_time r)
            \<or> (start_time \<le> oc_start_time r \<and> end_time \<ge> oc_end_time r))"
  then have "straddling_changes db resource_type resource_uuid start_time end_time \<noteq> []"
    unfolding straddling_changes_def filter_empty_conv by blast
  then show "resource_check_admin db resource_type resource_uuid start_time end_time
           default_admin_project_id project_id = False"
    unfolding rca_eq by simp
next
  show "resource_check_admin db_owner_change ''dummy_node'' ''1111'' 11 19
        default_admin_project_id ''owner2'' = True"
    unfolding rca_eq
    by (simp add: straddling_changes_def changes_containing_window_def db_owner_change_def
          mk_owner_change_def)
next
  show "resource_check_admin db_owner_change ''dummy_node'' ''1111'' 11 19
        default_admin_project_id ''owner1'' = False"
    unfolding rca_eq
    by (simp add: straddling_changes_def changes_containing_window_def db_owner_change_def
          mk_owner_change_def)
next
  show "resource_check_admin db_owner_change ''dummy_node'' ''1111'' 9 12
        default_admin_project_id project_id = False"
    unfolding rca_eq
    by (simp add: straddling_changes_def changes_containing_window_def db_owner_change_def
          mk_owner_change_def)
qed

text \<open>The test \<^verbatim>\<open>test_resource_check_admin_owner_change_conflict\<close>: the window \<open>[9, 11)\<close>
  starts before the owner change \<open>[10, 20)\<close> and ends inside it.\<close>

theorem resource_check_admin_straddle_denied_witness:
  "(\<exists>r \<in> set (owner_changes db_owner_change). oc_resource_uuid r = ''1111''
         \<and> oc_resource_type r = ''dummy_node''
         \<and> (oc_status r = CREATED \<or> oc_status r = ACTIVE)
         \<and> ((9 \<ge> oc_start_time r \<and> 9 < oc_end_time r \<and> 11 > oc_end_time r)
            \<or> (9 < oc_start_time r \<and> 11 > oc_start_time r \<and> 11 < oc_end_time r)
            \<or> (9 \<le> oc_start_time r \<and> 11 \<ge> oc_end_time r)))
   \<and> resource_check_admin db_owner_change ''dummy_node'' ''1111'' 9 11 ''owner1'' ''owner1'' = False"
  using resource_check_admin_straddle_denied
          [of db_owner_change "''1111''" "''dummy_node''" 9 11 "''owner1''" "''owner1''"]
  by (simp add: db_owner_change_def mk_owner_change_def)

text \<open>
  Claim C2, as the code has it. When no \<open>CREATED\<close> or \<open>ACTIVE\<close> owner change on the resource
  straddles the window: if exactly one \<open>CREATED\<close> or \<open>ACTIVE\<close> owner change on the resource
  has an interval that contains the window, bounds included
  (\<open>OC.start \<le> window_start\<close> and \<open>window_end \<le> OC.end\<close>), the call returns true iff the
  candidate project is that change's \<open>to_owner_id\<close>; if none has, it returns true iff the
  candidate project is the default admin project.
\<close>

theorem resource_check_admin_containing_change:
  "straddling_changes db resource_type resource_uuid start_time end_time = [] \<longrightarrow>
     (\<forall>oc. changes_containing_window db resource_type resource_uuid start_time end_time = [oc]
        \<longrightarrow> resource_check_admin db resource_type resource_uuid start_time end_time
              default_admin_project_id project_id
            = (project_id = oc_to_owner_id oc))
     \<and> (changes_containing_window db resource_type resource_uuid start_time end_time = []
        \<longrightarrow> resource_check_admin db resource_type resource_uuid start_time end_time
              default_admin_project_id project_id
            = (project_id = default_admin_project_id))"
  unfolding rca_eq by simp

text \<open>The tests \<^verbatim>\<open>test_resource_check_admin_owner_change_owner_change_match\<close> and
  \<^verbatim>\<open>test_resource_check_admin_owner_change_no_owner_changes\<close>: the window \<open>[11, 19)\<close> inside
  the owner change \<open>[10, 20)\<close>, and the window \<open>[8, 9)\<close> before it.\<close>

theorem resource_check_admin_containing_change_witness:
  "straddling_changes db_owner_change ''dummy_node'' ''1111'' 11 19 = []
   \<and> changes_containing_window db_owner_change ''dummy_node'' ''1111'' 11 19
       = [mk_owner_change ''11111'' ''owner2'' 10 20 CREATED]
   \<and> resource_check_admin db_owner_change ''dummy_node'' ''1111'' 11 19 ''owner1'' ''owner2'' = True
   \<and> straddling_changes db_owner_change ''dummy_node'' ''1111'' 8 9 = []
   \<and> changes_containing_window db_owner_change ''dummy_node'' ''1111'' 8 9 = []
   \<and> resource_check_admin db_owner_change ''dummy_node'' ''1111'' 8 9 ''owner1'' ''owner1'' = True"
  using resource_check_admin_containing_change
          [of db_owner_change "''dummy_node''" "''1111''" 11 19 "''owner1''" "''owner2''"]
        resource_check_admin_containing_change
          [of db_owner_change "''dummy_node''" "''1111''" 8 9 "''owner1''" "''owner1''"]
  by (simp add: straddling_changes_def changes_containing_window_def db_owner_change_def
        mk_owner_change_def)

text \<open>
  Claim C2, as the specification words it, fails: with the owner change \<open>[10, 20)\<close> to
  \<open>owner2\<close> stored and the window \<open>[11, 19)\<close>, no owner change straddles the window and none
  lies within it, the candidate \<open>owner1\<close> is the default admin project, and the call
  returns false (the test \<^verbatim>\<open>test_resource_check_admin_owner_change_owner_change_no_match\<close>).
\<close>

theorem resource_check_admin_within_window_counterexample:
  "straddling_changes db_owner_change ''dummy_node'' ''1111'' 11 19 = []
   \<and> spec_changes_within_window db_owner_change ''dummy_node'' ''1111'' 11 19 = []
   \<and> \<not> (resource_check_admin db_owner_change ''dummy_node'' ''1111'' 11 19 ''owner1'' ''owner1''
          \<longleftrightarrow> ''owner1'' = ''owner1'')"
  unfolding rca_eq
  by (simp add: straddling_changes_def changes_containing_window_def spec_changes_within_window_def
        db_owner_change_def mk_owner_change_def)

subsection \<open>Claiming an offer\<close>

lemma first_sorted_Min:
  assumes "ys \<noteq> []"
  shows "map_option f (first (sort_key f ys)) = Some (Min (f ` set ys))"
proof -
  obtain z zs where zs: "sort_key f ys = z # zs"
    using assms by (cases "sort_key f ys") (auto dest: arg_cong [where f = length])
  have srt: "sorted (map f (z # zs))"
    using sorted_sort_key [of f ys] zs by simp
  have st: "set (z # zs) = set ys"
    using set_sort [of f ys] zs by simp
  have "Min (f ` set ys) = f z"
  proof (rule Min_eqI)
    show "finite (f ` set ys)" by simp
    show "\<And>y. y \<in> f ` set ys \<Longrightarrow> f z \<le> y"
      using srt st by auto
    show "f z \<in> f ` set ys"
      using st by auto
  qed
  then show ?thesis
    by (simp add: zs first_def)
qed

lemma offer_get_first_availability_eq:
  "offer_get_first_availability db offer_uuid start =
     (if filter (\<lambda>r. l_offer_uuid r = Some offer_uuid
                    \<and> (l_status r = CREATED \<or> l_status r = ACTIVE)
                    \<and> l_end_time r \<ge> start) (leases db) = []
      then None
      else Some (Min (l_start_time ` {r \<in> set (leases db). l_offer_uuid r = Some offer_uuid
                    \<and> (l_status r = CREATED \<or> l_status r = ACTIVE)
                    \<and> l_end_time r \<ge> start})))"
proof -
  let ?P = "\<lambda>r. l_offer_uuid r = Some offer_uuid \<and> (l_status r = CREATED \<or> l_status r = ACTIVE)"
  let ?Q = "\<lambda>r. l_end_time r \<ge> start"
  let ?ys = "filter (\<lambda>r. ?P r \<and> ?Q r) (leases db)"
  have e: "filter ?Q (sort_key l_start_time (filter ?P (leases db))) = sort_key l_start_time ?ys"
    by (simp add: filter_sort conj_commute)
  show ?thesis
  proof (cases "?ys = []")
    case True
    then have "sort_key l_start_time ?ys = []" by simp
    with True show ?thesis
      unfolding offer_get_first_availability_def e by (simp add: first_def)
  next
    case False
    have s: "set ?ys = {r \<in> set (leases db). ?P r \<and> ?Q r}" by auto
    show ?thesis
      unfolding offer_get_first_availability_def e
      using False first_sorted_Min [OF False, of l_start_time] s by simp
  qed
qed

text \<open>
  Claim C9. When the claim request gives no end time, the lease's end time is the start time
  of the \<open>CREATED\<close> or \<open>ACTIVE\<close> lease of the offer with the smallest start time among those
  whose end time is at or after the claim's start time, and the offer's end time when there
  is no such lease.
\<close>

theorem claim_end_time_resolution:
  "claim_times db offer now (Some start) None =
     (start,
      if \<exists>r \<in> set (leases db). l_offer_uuid r = Some (o_uuid offer)
             \<and> (l_status r = CREATED \<or> l_status r = ACTIVE) \<and> l_end_time r \<ge> start
      then Min (l_start_time ` set (filter (\<lambda>r. l_offer_uuid r = Some (o_uuid offer)
                    \<and> (l_status r = CREATED \<or> l_status r = ACTIVE) \<and> l_end_time r \<ge> start)
                  (leases db)))
      else o_end_time offer)
   \<and> claim_times db offer now None None =
     (now,
      if \<exists>r \<in> set (leases db). l_offer_uuid r = Some (o_uuid offer)
             \<and> (l_status r = CREATED \<or> l_status r = ACTIVE) \<and> l_end_time r \<ge> now
      then Min (l_start_time ` set (filter (\<lambda>r. l_offer_uuid r = Some (o_uuid offer)
                    \<and> (l_status r = CREATED \<or> l_status r = ACTIVE) \<and> l_end_time r \<ge> now)
                  (leases db)))
      else o_end_time offer)"
  unfolding claim_times_def Let_def offer_get_first_availability_eq
  by (auto simp add: filter_empty_conv)

text \<open>On the offer \<open>[0, 100)\<close> with the leases \<open>[10, 20)\<close>, \<open>[20, 30)\<close>, \<open>[50, 60)\<close> and a
  cancelled one: a claim from \<open>35\<close> ends at \<open>50\<close>, a claim from \<open>61\<close> at the offer's end, and
  a claim from \<open>25\<close>, inside the lease \<open>[20, 30)\<close>, ends at \<open>20\<close>.\<close>

theorem claim_end_time_resolution_witness:
  "claim_times db_offer_leases (mk_offer ''11111'' 0 100 AVAILABLE) 0 (Some 35) None = (35, 50)
   \<and> claim_times db_offer_leases (mk_offer ''11111'' 0 100 AVAILABLE) 0 (Some 61) None = (61, 100)
   \<and> claim_times db_offer_leases (mk_offer ''11111'' 0 100 AVAILABLE) 0 (Some 25) None = (25, 20)"
  using claim_end_time_resolution [of db_offer_leases "mk_offer ''11111'' 0 100 AVAILABLE" 0 35]
    claim_end_time_resolution [of db_offer_leases "mk_offer ''11111'' 0 100 AVAILABLE" 0 61]
    claim_end_time_resolution [of db_offer_leases "mk_offer ''11111'' 0 100 AVAILABLE" 0 25]
  by (simp add: db_offer_leases_def mk_offer_def mk_lease_def)

subsection \<open>Destroys\<close>

lemma one_or_none_simps:
  "one_or_none [] = Inr None" "one_or_none [r] = Inr (Some r)"
  by (simp_all add: one_or_none_def)

lemma destroy_not_found:
  "filter (\<lambda>r. o_uuid r = u) (offers db) = [] \<Longrightarrow> offer_destroy db u = (db, Inl (OfferNotFound u))"
  "filter (\<lambda>r. l_uuid r = u) (leases db) = [] \<Longrightarrow> lease_destroy db u = (db, Inl (LeaseNotFound u))"
  "filter (\<lambda>r. oc_uuid r = u) (owner_changes db) = []
     \<Longrightarrow> owner_change_destroy db u = (db, Inl (OwnerChangeNotFound u))"
  by (simp_all add: offer_destroy_def lease_destroy_def owner_change_destroy_def one_or_none_simps)

lemma offer_destroy_found:
  "filter (\<lambda>r. o_uuid r = u) (offers db) = [r]
   \<Longrightarrow> offer_destroy db u = (db\<lparr>offers := filter (\<lambda>x. o_uuid x \<noteq> u) (offers db)\<rparr>, Inr ())"
  by (simp add: offer_destroy_def one_or_none_simps delete_rows_def)

lemma lease_destroy_found:
  "filter (\<lambda>r. l_uuid r = u) (leases db) = [r]
   \<Longrightarrow> lease_destroy db u = (db\<lparr>leases := []\<rparr>, Inr ())"
  by (simp add: lease_destroy_def one_or_none_simps delete_rows_def)

lemma owner_change_destroy_found:
  "filter (\<lambda>r. oc_uuid r = u) (owner_changes db) = [r]
   \<Longrightarrow> owner_change_destroy db u = (db\<lparr>owner_changes := []\<rparr>, Inr ())"
  by (simp add: owner_change_destroy_def one_or_none_simps delete_rows_def)

text \<open>
  Claim C5 holds for \<^verbatim>\<open>offer_destroy\<close> (the two lemmas above) and fails for
  \<^verbatim>\<open>lease_destroy\<close> and \<^verbatim>\<open>owner_change_destroy\<close>: destroying one lease of four removes
  the four, and destroying one owner change of two removes the two.
\<close>

theorem destroy_deletes_whole_table:
  "mk_lease ''22222'' (Some ''11111'') 20 30 CREATED \<in> set (leases db_offer_leases)
   \<and> lease_destroy db_offer_leases ''11111'' = (db_offer_leases\<lparr>leases := []\<rparr>, Inr ())
   \<and> mk_owner_change ''22222'' ''owner3'' 30 40 ACTIVE \<in> set (owner_changes db_two_owner_changes)
   \<and> owner_change_destroy db_two_owner_changes ''11111''
       = (db_two_owner_changes\<lparr>owner_changes := []\<rparr>, Inr ())"
  by (simp add: lease_destroy_def owner_change_destroy_def one_or_none_def delete_rows_def
        db_offer_leases_def db_two_owner_changes_def mk_lease_def mk_owner_change_def)

subsection \<open>Updates\<close>

lemma effective_bound_Some: "effective_bound v (Some r) col = Inr (setattr v (col r))"
  by (simp add: effective_bound_def setattr_def split: option.splits)

lemma effective_bound_None:
  "effective_bound v None col = (case v of None \<Rightarrow> Inl AttributeError | Some t \<Rightarrow> Inr t)"
  by (simp add: effective_bound_def split: option.splits)

lemma offer_update_found:
  assumes "filter (\<lambda>x. o_uuid x = u) (offers db) = [r]"
  shows "offer_update db u v =
     (let start = setattr (ov_start_time v) (o_start_time r);
          end = setattr (ov_end_time v) (o_end_time r);
          r' = offer_row_update (v\<lparr>ov_uuid := None, ov_project_id := None\<rparr>) r
      in if start \<ge> end then (db, Inl (InvalidTimeRange ''an offer'' start end))
         else (db\<lparr>offers := map (\<lambda>x. if o_uuid x = u then r' else x) (offers db)\<rparr>, Inr r'))"
  using assms
  by (simp add: offer_update_def one_or_none_simps effective_bound_Some Let_def)

lemma lease_update_found:
  assumes "filter (\<lambda>x. l_uuid x = u) (leases db) = [r]"
  shows "lease_update db u v =
     (let start = setattr (lv_start_time v) (l_start_time r);
          end = setattr (lv_end_time v) (l_end_time r);
          r' = lease_row_update (v\<lparr>lv_uuid := None, lv_project_id := None\<rparr>) r
      in if start \<ge> end then (db, Inl (InvalidTimeRange ''a lease'' start end))
         else (db\<lparr>leases := map (\<lambda>x. if l_uuid x = u then r' else x) (leases db)\<rparr>, Inr r'))"
  using assms
  by (simp add: lease_update_def one_or_none_simps effective_bound_Some Let_def)

lemma owner_change_update_found:
  assumes "filter (\<lambda>x. oc_uuid x = u) (owner_changes db) = [r]"
  shows "owner_change_update db u v =
     (let start = setattr (ocv_start_time v) (oc_start_time r);
          end = setattr (ocv_end_time v) (oc_end_time r);
          r' = owner_change_row_update
                 (v\<lparr>ocv_uuid := None, ocv_from_owner_id := None, ocv_to_owner_id := None,
                    ocv_resource_type := None, ocv_resource_uuid := None\<rparr>) r
      in if start \<ge> end then (db, Inl (InvalidTimeRange ''an owner_change'' start end))
         else (db\<lparr>owner_changes := map (\<lambda>x. if oc_uuid x = u then r' else x) (owner_changes db)\<rparr>,
               Inr r'))"
  using assms
  by (simp add: owner_change_update_def one_or_none_simps effective_bound_Some Let_def)

lemma offer_update_absent:
  assumes "filter (\<lambda>x. o_uuid x = u) (offers db) = []"
  shows "offer_update db u v =
     (db, case (ov_start_time v, ov_end_time v) of
            (Some s, Some e) \<Rightarrow> if s \<ge> e then Inl (InvalidTimeRange ''an offer'' s e)
                                 else Inl AttributeError
          | _ \<Rightarrow> Inl AttributeError)"
  using assms
  by (simp add: offer_update_def one_or_none_simps effective_bound_None Let_def split: option.splits)

lemma lease_update_absent:
  assumes "filter (\<lambda>x. l_uuid x = u) (leases db) = []"
  shows "lease_update db u v =
     (db, case (lv_start_time v, lv_end_time v) of
            (Some s, Some e) \<Rightarrow> if s \<ge> e then Inl (InvalidTimeRange ''a lease'' s e)
                                 else Inl AttributeError
          | _ \<Rightarrow> Inl AttributeError)"
  using assms
  by (simp add: lease_update_def one_or_none_simps effective_bound_None Let_def split: option.splits)

lemma owner_change_update_absent:
  assumes "filter (\<lambda>x. oc_uuid x = u) (owner_changes db) = []"
  shows "owner_change_update db u v =
     (db, case (ocv_start_time v, ocv_end_time v) of
            (Some s, Some e) \<Rightarrow> if s \<ge> e then Inl (InvalidTimeRange ''an owner_change'' s e)
                                 else Inl AttributeError
          | _ \<Rightarrow> Inl AttributeError)"
  using assms
  by (simp add: owner_change_update_def one_or_none_simps effective_bound_None Let_def
        split: option.splits)

text \<open>
  Claim C6. For a stored reservation with \<open>start_time < end_time\<close> and any \<open>values\<close>, each
  of \<^verbatim>\<open>offer_update\<close>, \<^verbatim>\<open>lease_update\<close> and \<^verbatim>\<open>owner_change_update\<close> raises
  \<^verbatim>\<open>InvalidTimeRange\<close> if the effective bounds (the value supplied for \<open>start_time\<close> and for
  \<open>end_time\<close>, the stored value where none is supplied) satisfy \<open>start \<ge> end\<close>, and then
  the store is unchanged; it returns the updated row otherwise. An update that supplies
  neither time, as one that supplies the properties only does, returns a row with the
  stored \<open>start_time\<close> and \<open>end_time\<close>, and that row replaces the stored one.
\<close>

theorem update_time_range_check:
  "(filter (\<lambda>x. o_uuid x = u) (offers db) = [ofr] \<and> o_start_time ofr < o_end_time ofr \<longrightarrow>
      (let start = (case ov_start_time ov of None \<Rightarrow> o_start_time ofr | Some t \<Rightarrow> t);
           end = (case ov_end_time ov of None \<Rightarrow> o_end_time ofr | Some t \<Rightarrow> t)
       in (start \<ge> end \<longrightarrow> offer_update db u ov = (db, Inl (InvalidTimeRange ''an offer'' start end)))
          \<and> (start < end \<longrightarrow> (\<exists>r'. snd (offer_update db u ov) = Inr r'))
          \<and> (ov_start_time ov = None \<and> ov_end_time ov = None \<longrightarrow>
               (\<exists>r'. snd (offer_update db u ov) = Inr r'
                  \<and> o_start_time r' = o_start_time ofr \<and> o_end_time r' = o_end_time ofr
                  \<and> offers (fst (offer_update db u ov))
                      = map (\<lambda>x. if o_uuid x = u then r' else x) (offers db)))))
   \<and> (filter (\<lambda>x. l_uuid x = u) (leases db) = [lse] \<and> l_start_time lse < l_end_time lse \<longrightarrow>
      (let start = (case lv_start_time lv of None \<Rightarrow> l_start_time lse | Some t \<Rightarrow> t);
           end = (case lv_end_time lv of None \<Rightarrow> l_end_time lse | Some t \<Rightarrow> t)
       in (start \<ge> end \<longrightarrow> lease_update db u lv = (db, Inl (InvalidTimeRange ''a lease'' start end)))
          \<and> (start < end \<longrightarrow> (\<exists>r'. snd (lease_update db u lv) = Inr r'))
          \<and> (lv_start_time lv = None \<and> lv_end_time lv = None \<longrightarrow>
               (\<exists>r'. snd (lease_update db u lv) = Inr r'
                  \<and> l_start_time r' = l_start_time lse \<and> l_end_time r' = l_end_time lse
                  \<and> leases (fst (lease_update db u lv))
                      = map (\<lambda>x. if l_uuid x = u then r' else x) (leases db)))))
   \<and> (filter (\<lambda>x. oc_uuid x = u) (owner_changes db) = [och] \<and> oc_start_time och < oc_end_time och \<longrightarrow>
      (let start = (case ocv_start_time ocv of None \<Rightarrow> oc_start_time och | Some t \<Rightarrow> t);
           end = (case ocv_end_time ocv of None \<Rightarrow> oc_end_time och | Some t \<Rightarrow> t)
       in (start \<ge> end \<longrightarrow> owner_change_update db u ocv = (db, Inl (InvalidTimeRange ''an owner_change'' start end)))
          \<and> (start < end \<longrightarrow> (\<exists>r'. snd (owner_change_update db u ocv) = Inr r'))
          \<and> (ocv_start_time ocv = None \<and> ocv_end_time ocv = None \<longrightarrow>
               (\<exists>r'. snd (owner_change_update db u ocv) = Inr r'
                  \<and> oc_start_time r' = oc_start_time och \<and> oc_end_time r' = oc_end_time och
                  \<and> owner_changes (fst (owner_change_update db u ocv))
                      = map (\<lambda>x. if oc_uuid x = u then r' else x) (owner_changes db)))))"
proof (intro conjI impI)
  assume h: "filter (\<lambda>x. o_uuid x = u) (offers db) = [ofr] \<and> o_start_time ofr < o_end_time ofr"
  show "let start = (case ov_start_time ov of None \<Rightarrow> o_start_time ofr | Some t \<Rightarrow> t);
           end = (case ov_end_time ov of None \<Rightarrow> o_end_time ofr | Some t \<Rightarrow> t)
       in (start \<ge> end \<longrightarrow> offer_update db u ov = (db, Inl (InvalidTimeRange ''an offer'' start end)))
          \<and> (start < end \<longrightarrow> (\<exists>r'. snd (offer_update db u ov) = Inr r'))
          \<and> (ov_start_time ov = None \<and> ov_end_time ov = None \<longrightarrow>
               (\<exists>r'. snd (offer_update db u ov) = Inr r'
                  \<and> o_start_time r' = o_start_time ofr \<and> o_end_time r' = o_end_time ofr
                  \<and> offers (fst (offer_update db u ov))
                      = map (\<lambda>x. if o_uuid x = u then r' else x) (offers db)))"
    using h offer_update_found [of u db ofr ov]
    by (auto simp add: Let_def setattr_def offer_row_update_def split: option.splits)
next
  assume h: "filter (\<lambda>x. l_uuid x = u) (leases db) = [lse] \<and> l_start_time lse < l_end_time lse"
  show "let start = (case lv_start_time lv of None \<Rightarrow> l_start_time lse | Some t \<Rightarrow> t);
           end = (case lv_end_time lv of None \<Rightarrow> l_end_time lse | Some t \<Rightarrow> t)
       in (start \<ge> end \<longrightarrow> lease_update db u lv = (db, Inl (InvalidTimeRange ''a lease'' start end)))
          \<and> (start < end \<longrightarrow> (\<exists>r'. snd (lease_update db u lv) = Inr r'))
          \<and> (lv_start_time lv = None \<and> lv_end_time lv = None \<longrightarrow>
               (\<exists>r'. snd (lease_update db u lv) = Inr r'
                  \<and> l_start_time r' = l_start_time lse \<and> l_end_time r' = l_end_time lse
                  \<and> leases (fst (lease_update db u lv))
                      = map (\<lambda>x. if l_uuid x = u then r' else x) (leases db)))"
    using h lease_update_found [of u db lse lv]
    by (auto simp add: Let_def setattr_def lease_row_update_def split: option.splits)
next
  assume h: "filter (\<lambda>x. oc_uuid x = u) (owner_changes db) = [och]
             \<and> oc_start_time och < oc_end_time och"
  show "let start = (case ocv_start_time ocv of None \<Rightarrow> oc_start_time och | Some t \<Rightarrow> t);
           end = (case ocv_end_time ocv of None \<Rightarrow> oc_end_time och | Some t \<Rightarrow> t)
       in (start \<ge> end \<longrightarrow> owner_change_update db u ocv
                              = (db, Inl (InvalidTimeRange ''an owner_change'' start end)))
          \<and> (start < end \<longrightarrow> (\<exists>r'. snd (owner_change_update db u ocv) = Inr r'))
          \<and> (ocv_start_time ocv = None \<and> ocv_end_time ocv = None \<longrightarrow>
               (\<exists>r'. snd (owner_change_update db u ocv) = Inr r'
                  \<and> oc_start_time r' = oc_start_time och \<and> oc_end_time r' = oc_end_time och
                  \<and> owner_changes (fst (owner_change_update db u ocv))
                      = map (\<lambda>x. if oc_uuid x = u then r' else x) (owner_changes db)))"
    using h owner_change_update_found [of u db och ocv]
    by (auto simp add: Let_def setattr_def owner_change_row_update_def split: option.splits)
qed

text \<open>The round trip of the specification on the offer \<open>[0, 100)\<close>, the lease \<open>[10, 20)\<close>
  and the owner change \<open>[10, 20)\<close>: moving the start past the stored end fails, and the
  store stays as it was.\<close>

theorem update_time_range_check_witness:
  "(filter (\<lambda>x. o_uuid x = ''11111'') (offers db_two_owner_changes)
       = [mk_offer ''11111'' 0 100 AVAILABLE]
     \<and> o_start_time (mk_offer ''11111'' 0 100 AVAILABLE) < o_end_time (mk_offer ''11111'' 0 100 AVAILABLE))
   \<and> offer_update db_two_owner_changes ''11111'' (no_offer_values\<lparr>ov_start_time := Some 101\<rparr>)
       = (db_two_owner_changes, Inl (InvalidTimeRange ''an offer'' 101 100))
   \<and> (filter (\<lambda>x. l_uuid x = ''11111'') (leases db_two_owner_changes)
       = [mk_lease ''11111'' (Some ''11111'') 10 20 CREATED]
     \<and> l_start_time (mk_lease ''11111'' (Some ''11111'') 10 20 CREATED)
         < l_end_time (mk_lease ''11111'' (Some ''11111'') 10 20 CREATED))
   \<and> lease_update db_two_owner_changes ''11111'' (no_lease_values\<lparr>lv_end_time := Some 10\<rparr>)
       = (db_two_owner_changes, Inl (InvalidTimeRange ''a lease'' 10 10))
   \<and> (filter (\<lambda>x. oc_uuid x = ''11111'') (owner_changes db_two_owner_changes)
       = [mk_owner_change ''11111'' ''owner2'' 10 20 CREATED]
     \<and> oc_start_time (mk_owner_change ''11111'' ''owner2'' 10 20 CREATED)
         < oc_end_time (mk_owner_change ''11111'' ''owner2'' 10 20 CREATED))
   \<and> owner_change_update db_two_owner_changes ''11111''
        (no_owner_change_values\<lparr>ocv_start_time := Some 101, ocv_end_time := Some 0\<rparr>)
       = (db_two_owner_changes, Inl (InvalidTimeRange ''an owner_change'' 101 0))"
  using update_time_range_check
          [where u = "''11111''" and db = db_two_owner_changes
             and ofr = "mk_offer ''11111'' 0 100 AVAILABLE"
             and ov = "no_offer_values\<lparr>ov_start_time := Some 101\<rparr>"
             and lse = "mk_lease ''11111'' (Some ''11111'') 10 20 CREATED"
             and lv = "no_lease_values\<lparr>lv_end_time := Some 10\<rparr>"
             and och = "mk_owner_change ''11111'' ''owner2'' 10 20 CREATED"
             and ocv = "no_owner_change_values\<lparr>ocv_start_time := Some 101, ocv_end_time := Some 0\<rparr>"]
  by (simp add: db_two_owner_changes_def mk_offer_def mk_lease_def mk_owner_change_def
        no_offer_values_def no_lease_values_def no_owner_change_values_def)

text \<open>
  Claim C10. For a uuid that no row of the kind has, \<^verbatim>\<open>offer_update\<close>, \<^verbatim>\<open>lease_update\<close>
  and \<^verbatim>\<open>owner_change_update\<close> neither return normally nor raise the kind's \<^verbatim>\<open>NotFound\<close>
  error: the lookup's \<^verbatim>\<open>None\<close> is dereferenced, while resolving the effective time bounds
  whenever \<open>values\<close> omits one of them, unless \<open>values\<close> supplies both bounds with
  \<open>start \<ge> end\<close>, which raises \<^verbatim>\<open>InvalidTimeRange\<close>. The store is unchanged. The destroy
  operations raise \<^verbatim>\<open>NotFound\<close> for such a uuid.
\<close>

theorem update_absent_uuid:
  "(filter (\<lambda>x. o_uuid x = u) (offers db) = [] \<longrightarrow>
      (\<forall>r. snd (offer_update db u ov) \<noteq> Inr r)
      \<and> (\<forall>x. snd (offer_update db u ov) \<noteq> Inl (OfferNotFound x))
      \<and> (snd (offer_update db u ov) = Inl AttributeError
          \<or> (\<exists>s e. ov_start_time ov = Some s \<and> ov_end_time ov = Some e \<and> s \<ge> e
                \<and> snd (offer_update db u ov) = Inl (InvalidTimeRange ''an offer'' s e)))
      \<and> (ov_start_time ov = None \<or> ov_end_time ov = None
            \<longrightarrow> snd (offer_update db u ov) = Inl AttributeError)
      \<and> fst (offer_update db u ov) = db
      \<and> offer_destroy db u = (db, Inl (OfferNotFound u)))
   \<and> (filter (\<lambda>x. l_uuid x = u) (leases db) = [] \<longrightarrow>
      (\<forall>r. snd (lease_update db u lv) \<noteq> Inr r)
      \<and> (\<forall>x. snd (lease_update db u lv) \<noteq> Inl (LeaseNotFound x))
      \<and> (snd (lease_update db u lv) = Inl AttributeError
          \<or> (\<exists>s e. lv_start_time lv = Some s \<and> lv_end_time lv = Some e \<and> s \<ge> e
                \<and> snd (lease_update db u lv) = Inl (InvalidTimeRange ''a lease'' s e)))
      \<and> (lv_start_time lv = None \<or> lv_end_time lv = None
            \<longrightarrow> snd (lease_update db u lv) = Inl AttributeError)
      \<and> fst (lease_update db u lv) = db
      \<and> lease_destroy db u = (db, Inl (LeaseNotFound u)))
   \<and> (filter (\<lambda>x. oc_uuid x = u) (owner_changes db) = [] \<longrightarrow>
      (\<forall>r. snd (owner_change_update db u ocv) \<noteq> Inr r)
      \<and> (\<forall>x. snd (owner_change_update db u ocv) \<noteq> Inl (OwnerChangeNotFound x))
      \<and> (snd (owner_change_update db u ocv) = Inl AttributeError
          \<or> (\<exists>s e. ocv_start_time ocv = Some s \<and> ocv_end_time ocv = Some e \<and> s \<ge> e
                \<and> snd (owner_change_update db u ocv) = Inl (InvalidTimeRange ''an owner_change'' s e)))
      \<and> (ocv_start_time ocv = None \<or> ocv_end_time ocv = None
            \<longrightarrow> snd (owner_change_update db u ocv) = Inl AttributeError)
      \<and> fst (owner_change_update db u ocv) = db
      \<and> owner_change_destroy db u = (db, Inl (OwnerChangeNotFound u)))"
proof -
  have A: "filter (\<lambda>x. o_uuid x = u) (offers db) = [] \<longrightarrow>
      (\<forall>r. snd (offer_update db u ov) \<noteq> Inr r)
      \<and> (\<forall>x. snd (offer_update db u ov) \<noteq> Inl (OfferNotFound x))
      \<and> (snd (offer_update db u ov) = Inl AttributeError
          \<or> (\<exists>s e. ov_start_time ov = Some s \<and> ov_end_time ov = Some e \<and> s \<ge> e
                \<and> snd (offer_update db u ov) = Inl (InvalidTimeRange ''an offer'' s e)))
      \<and> (ov_start_time ov = None \<or> ov_end_time ov = None
            \<longrightarrow> snd (offer_update db u ov) = Inl AttributeError)
      \<and> fst (offer_update db u ov) = db
      \<and> offer_destroy db u = (db, Inl (OfferNotFound u))"
  proof (rule impI)
    assume h: "filter (\<lambda>x. o_uuid x = u) (offers db) = []"
    show "(\<forall>r. snd (offer_update db u ov) \<noteq> Inr r)
      \<and> (\<forall>x. snd (offer_update db u ov) \<noteq> Inl (OfferNotFound x))
      \<and> (snd (offer_update db u ov) = Inl AttributeError
          \<or> (\<exists>s e. ov_start_time ov = Some s \<and> ov_end_time ov = Some e \<and> s \<ge> e
                \<and> snd (offer_update db u ov) = Inl (InvalidTimeRange ''an offer'' s e)))
      \<and> (ov_start_time ov = None \<or> ov_end_time ov = None
            \<longrightarrow> snd (offer_update db u ov) = Inl AttributeError)
      \<and> fst (offer_update db u ov) = db
      \<and> offer_destroy db u = (db, Inl (OfferNotFound u))"
      unfolding offer_update_absent [OF h] destroy_not_found(1) [OF h]
      by (auto split: option.splits)
  qed
  have B: "filter (\<lambda>x. l_uuid x = u) (leases db) = [] \<longrightarrow>
      (\<forall>r. snd (lease_update db u lv) \<noteq> Inr r)
      \<and> (\<forall>x. snd (lease_update db u lv) \<noteq> Inl (LeaseNotFound x))
      \<and> (snd (lease_update db u lv) = Inl AttributeError
          \<or> (\<exists>s e. lv_start_time lv = Some s \<and> lv_end_time lv = Some e \<and> s \<ge> e
                \<and> snd (lease_update db u lv) = Inl (InvalidTimeRange ''a lease'' s e)))
      \<and> (lv_start_time lv = None \<or> lv_end_time lv = None
            \<longrightarrow> snd (lease_update db u lv) = Inl AttributeError)
      \<and> fst (lease_update db u lv) = db
      \<and> lease_destroy db u = (db, Inl (LeaseNotFound u))"
  proof (rule impI)
    assume h: "filter (\<lambda>x. l_uuid x = u) (leases db) = []"
    show "(\<forall>r. snd (lease_update db u lv) \<noteq> Inr r)
      \<and> (\<forall>x. snd (lease_update db u lv) \<noteq> Inl (LeaseNotFound x))
      \<and> (snd (lease_update db u lv) = Inl AttributeError
          \<or> (\<exists>s e. lv_start_time lv = Some s \<and> lv_end_time lv = Some e \<and> s \<ge> e
                \<and> snd (lease_update db u lv) = Inl (InvalidTimeRange ''a lease'' s e)))
      \<and> (lv_start_time lv = None \<or> lv_end_time lv = None
            \<longrightarrow> snd (lease_update db u lv) = Inl AttributeError)
      \<and> fst (lease_update db u lv) = db
      \<and> lease_destroy db u = (db, Inl (LeaseNotFound u))"
      unfolding lease_update_absent [OF h] destroy_not_found(2) [OF h]
      by (auto split: option.splits)
  qed
  have C: "filter (\<lambda>x. oc_uuid x = u) (owner_changes db) = [] \<longrightarrow>
      (\<forall>r. snd (owner_change_update db u ocv) \<noteq> Inr r)
      \<and> (\<forall>x. snd (owner_change_update db u ocv) \<noteq> Inl (OwnerChangeNotFound x))
      \<and> (snd (owner_change_update db u ocv) = Inl AttributeError
          \<or> (\<exists>s e. ocv_start_time ocv = Some s \<and> ocv_end_time ocv = Some e \<and> s \<ge> e
                \<and> snd (owner_change_update db u ocv) = Inl (InvalidTimeRange ''an owner_change'' s e)))
      \<and> (ocv_start_time ocv = None \<or> ocv_end_time ocv = None
            \<longrightarrow> snd (owner_change_update db u ocv) = Inl AttributeError)
      \<and> fst (owner_change_update db u ocv) = db
      \<and> owner_change_destroy db u = (db, Inl (OwnerChangeNotFound u))"
  proof (rule impI)
    assume h: "filter (\<lambda>x. oc_uuid x = u) (owner_changes db) = []"
    show "(\<forall>r. snd (owner_change_update db u ocv) \<noteq> Inr r)
      \<and> (\<forall>x. snd (owner_change_update db u ocv) \<noteq> Inl (OwnerChangeNotFound x))
      \<and> (snd (owner_change_update db u ocv) = Inl AttributeError
          \<or> (\<exists>s e. ocv_start_time ocv = Some s \<and> ocv_end_time ocv = Some e \<and> s \<ge> e
                \<and> snd (owner_change_update db u ocv) = Inl (InvalidTimeRange ''an owner_change'' s e)))
      \<and> (ocv_start_time ocv = None \<or> ocv_end_time ocv = None
            \<longrightarrow> snd (owner_change_update db u ocv) = Inl AttributeError)
      \<and> fst (owner_change_update db u ocv) = db
      \<and> owner_change_destroy db u = (db, Inl (OwnerChangeNotFound u))"
      unfolding owner_change_update_absent [OF h] destroy_not_found(3) [OF h]
      by (auto split: option.splits)
  qed
  show ?thesis
    by (rule conjI [OF A conjI [OF B C]])
qed

text \<open>A uuid that the store does not hold: an update with no times, one with the times
  \<open>5\<close> and \<open>3\<close>, and one with the status only.\<close>

theorem update_absent_uuid_witness:
  "filter (\<lambda>x. o_uuid x = ''some_uuid'') (offers db_one_offer) = []
   \<and> snd (offer_update db_one_offer ''some_uuid'' no_offer_values) = Inl AttributeError
   \<and> offer_destroy db_one_offer ''some_uuid'' = (db_one_offer, Inl (OfferNotFound ''some_uuid''))
   \<and> filter (\<lambda>x. l_uuid x = ''some_uuid'') (leases db_one_offer) = []
   \<and> snd (lease_update db_one_offer ''some_uuid''
             (no_lease_values\<lparr>lv_start_time := Some 5, lv_end_time := Some 3\<rparr>))
       = Inl (InvalidTimeRange ''a lease'' 5 3)
   \<and> lease_destroy db_one_offer ''some_uuid'' = (db_one_offer, Inl (LeaseNotFound ''some_uuid''))
   \<and> filter (\<lambda>x. oc_uuid x = ''some_uuid'') (owner_changes db_one_offer) = []
   \<and> snd (owner_change_update db_one_offer ''some_uuid''
             (no_owner_change_values\<lparr>ocv_status := Some ACTIVE\<rparr>)) = Inl AttributeError
   \<and> owner_change_destroy db_one_offer ''some_uuid''
       = (db_one_offer, Inl (OwnerChangeNotFound ''some_uuid''))"
  using update_absent_uuid
          [where u = "''some_uuid''" and db = db_one_offer
             and ov = no_offer_values
             and lv = "no_lease_values\<lparr>lv_start_time := Some 5, lv_end_time := Some 3\<rparr>"
             and ocv = "no_owner_change_values\<lparr>ocv_status := Some ACTIVE\<rparr>"]
  by (simp add: db_one_offer_def mk_offer_def lease_update_def one_or_none_def effective_bound_def
        no_offer_values_def no_lease_values_def no_owner_change_values_def)

subsection \<open>The availability calculator\<close>

lemma availability_scan_acc:
  "availability_scan c g occ
     = (fst (availability_scan c [] occ), g @ snd (availability_scan c [] occ))"
proof (induction occ arbitrary: c g)
  case Nil
  show ?case by simp
next
  case (Cons i occ)
  obtain s e where i: "i = (s, e)" by (cases i)
  show ?case
    unfolding i availability_scan.simps
    using Cons.IH [of "max c e" "if c < s then g @ [(c, s)] else g"]
      Cons.IH [of "max c e" "if c < s then [] @ [(c, s)] else []"]
    by simp
qed

lemma availability_scan_Cons:
  "availability_scan c [] ((s, e) # occ)
     = (fst (availability_scan (max c e) [] occ),
        (if c < s then [(c, s)] else []) @ snd (availability_scan (max c e) [] occ))"
  using availability_scan_acc [of "max c e" "[(c, s)]" occ]
  by (cases "c < s") simp_all

lemma availability_scan_positive:
  "\<forall>g \<in> set (snd (availability_scan c [] occ)). fst g < snd g"
proof (induction occ arbitrary: c)
  case Nil
  show ?case by simp
next
  case (Cons i occ)
  obtain s e where i: "i = (s, e)" by (cases i)
  show ?case
    unfolding i availability_scan_Cons using Cons.IH [of "max c e"] by auto
qed

lemma availability_scan_cover:
  assumes "sorted (map fst occ)" and "\<forall>i \<in> set occ. fst i < snd i"
  shows "c \<le> fst (availability_scan c [] occ)
       \<and> (\<forall>i \<in> set occ. snd i \<le> fst (availability_scan c [] occ))
       \<and> (\<forall>t. (\<exists>g \<in> set (snd (availability_scan c [] occ)). fst g \<le> t \<and> t < snd g)
              \<longleftrightarrow> (c \<le> t \<and> t < fst (availability_scan c [] occ)
                   \<and> \<not> (\<exists>i \<in> set occ. fst i \<le> t \<and> t < snd i)))"
  using assms
proof (induction occ arbitrary: c)
  case Nil
  show ?case by simp
next
  case (Cons i occ)
  obtain s e where i: "i = (s, e)" by (cases i)
  let ?c' = "fst (availability_scan (max c e) [] occ)"
  let ?gs = "snd (availability_scan (max c e) [] occ)"
  have se: "s < e" using Cons.prems(2) i by simp
  have later: "\<forall>j \<in> set occ. s \<le> fst j" using Cons.prems(1) i by simp
  have srt: "sorted (map fst occ)" using Cons.prems(1) by simp
  have pos: "\<forall>j \<in> set occ. fst j < snd j" using Cons.prems(2) by simp
  note IH = Cons.IH [OF srt pos, of "max c e"]
  have 1: "max c e \<le> ?c'" using IH by blast
  have 2: "\<forall>j \<in> set occ. snd j \<le> ?c'" using IH by blast
  have 3: "\<And>t. (\<exists>g \<in> set ?gs. fst g \<le> t \<and> t < snd g)
              \<longleftrightarrow> (max c e \<le> t \<and> t < ?c' \<and> \<not> (\<exists>j \<in> set occ. fst j \<le> t \<and> t < snd j))"
    using IH by blast
  have cov: "(\<exists>g \<in> set ((if c < s then [(c, s)] else []) @ ?gs). fst g \<le> t \<and> t < snd g)
              \<longleftrightarrow> (c \<le> t \<and> t < ?c' \<and> \<not> (\<exists>j \<in> set ((s, e) # occ). fst j \<le> t \<and> t < snd j))"
    for t
  proof (cases "t < s")
    case True
    have "\<not> (\<exists>j \<in> set occ. fst j \<le> t \<and> t < snd j)" using later True by fastforce
    moreover have "\<not> (max c e \<le> t)" using True se by simp
    moreover have "t < ?c'" using True se 1 by simp
    ultimately show ?thesis using True 3 [of t] by auto
  next
    case False
    then show ?thesis using 3 [of t] by auto
  qed
  show ?case
    unfolding i availability_scan_Cons using 1 2 cov by simp
qed

lemma availability_scan_gap_ends:
  "\<forall>g \<in> set (snd (availability_scan c [] occ)). snd g \<in> fst ` set occ"
proof (induction occ arbitrary: c)
  case Nil
  show ?case by simp
next
  case (Cons i occ)
  obtain s e where i: "i = (s, e)" by (cases i)
  show ?case
    unfolding i availability_scan_Cons using Cons.IH [of "max c e"] by auto
qed

lemma availability_gaps_eq:
  "availability_gaps o_start o_end occupied =
     snd (availability_scan o_start [] occupied)
     @ (if fst (availability_scan o_start [] occupied) < o_end
        then [(fst (availability_scan o_start [] occupied), o_end)] else [])"
  by (simp add: availability_gaps_def split: prod.splits)

lemma availability_gaps_positive:
  "\<forall>g \<in> set (availability_gaps o_start o_end occupied). fst g < snd g"
  unfolding availability_gaps_eq using availability_scan_positive [of o_start occupied] by auto

lemma availability_gaps_cover:
  assumes "sorted (map fst occupied)"
    and "\<forall>i \<in> set occupied. fst i < snd i \<and> snd i \<le> o_end"
  shows "(\<exists>g \<in> set (availability_gaps o_start o_end occupied). fst g \<le> t \<and> t < snd g)
         \<longleftrightarrow> (o_start \<le> t \<and> t < o_end \<and> \<not> (\<exists>i \<in> set occupied. fst i \<le> t \<and> t < snd i))"
proof -
  let ?c = "fst (availability_scan o_start [] occupied)"
  let ?gs = "snd (availability_scan o_start [] occupied)"
  have pos: "\<forall>i \<in> set occupied. fst i < snd i" using assms(2) by blast
  note C = availability_scan_cover [OF assms(1) pos, of o_start]
  have 1: "o_start \<le> ?c" using C by blast
  have 2: "\<forall>i \<in> set occupied. snd i \<le> ?c" using C by blast
  have 3: "(\<exists>g \<in> set ?gs. fst g \<le> t \<and> t < snd g)
              \<longleftrightarrow> (o_start \<le> t \<and> t < ?c \<and> \<not> (\<exists>i \<in> set occupied. fst i \<le> t \<and> t < snd i))"
    using C by blast
  have 4: "t < o_end" if gin: "g \<in> set ?gs" and tg: "t < snd g" for g
  proof -
    obtain i where "i \<in> set occupied" and "snd g = fst i"
      using availability_scan_gap_ends [of o_start occupied] gin by auto
    then show ?thesis using assms(2) tg by fastforce
  qed
  show ?thesis
  proof (cases "t < ?c")
    case True
    then have "(\<exists>g \<in> set (availability_gaps o_start o_end occupied). fst g \<le> t \<and> t < snd g)
                 \<longleftrightarrow> (\<exists>g \<in> set ?gs. fst g \<le> t \<and> t < snd g)"
      unfolding availability_gaps_eq by auto
    also have "\<dots> \<longleftrightarrow> (o_start \<le> t \<and> t < o_end
                 \<and> \<not> (\<exists>i \<in> set occupied. fst i \<le> t \<and> t < snd i))"
      using 3 4 True by blast
    finally show ?thesis .
  next
    case False
    then have "\<not> (\<exists>i \<in> set occupied. fst i \<le> t \<and> t < snd i)" using 2 by fastforce
    moreover have "\<not> (\<exists>g \<in> set ?gs. fst g \<le> t \<and> t < snd g)" using 3 False by simp
    ultimately show ?thesis unfolding availability_gaps_eq using False 1 by auto
  qed
qed

lemma offer_get_conflict_times_sorted:
  "sorted (map fst (offer_get_conflict_times db offer_ref))"
  unfolding offer_get_conflict_times_def by (simp add: comp_def)

text \<open>
  Claim C4. The availability computation emits no empty and no negative-length gap. For
  occupied intervals sorted by start, each non-empty and ending within the offer, the gaps
  are the free time of the offer: a point in time lies in a gap exactly when it lies in
  the offer's interval and in no occupied interval. The occupied list that
  \<^verbatim>\<open>offer_get_conflict_times\<close> hands over is sorted by start. For the offer \<open>[0, 100)\<close>
  the occupied intervals \<open>[10, 20)\<close>, \<open>[20, 30)\<close>, \<open>[50, 60)\<close> leave the gaps \<open>[0, 10)\<close>,
  \<open>[30, 50)\<close>, \<open>[60, 100)\<close>, the occupied interval \<open>[0, 100)\<close> leaves none, and no occupied
  interval leaves \<open>[0, 100)\<close>.
\<close>

theorem availability_gaps_cursor_scan:
  "(\<forall>g \<in> set (availability_gaps o_start o_end occupied). fst g < snd g)
   \<and> (sorted (map fst occupied) \<and> (\<forall>i \<in> set occupied. fst i < snd i \<and> snd i \<le> o_end)
      \<longrightarrow> (\<forall>t. (\<exists>g \<in> set (availability_gaps o_start o_end occupied). fst g \<le> t \<and> t < snd g)
               \<longleftrightarrow> (o_start \<le> t \<and> t < o_end
                    \<and> \<not> (\<exists>i \<in> set occupied. fst i \<le> t \<and> t < snd i))))
   \<and> sorted (map fst (offer_get_conflict_times db offer_ref))
   \<and> availability_gaps 0 100 [(10, 20), (20, 30), (50, 60)] = [(0, 10), (30, 50), (60, 100)]
   \<and> availability_gaps 0 100 [(0, 100)] = []
   \<and> availability_gaps 0 100 [] = [(0, 100)]
   \<and> get_availabilities db_offer_leases (mk_offer ''11111'' 0 100 AVAILABLE)
       = [(0, 10), (30, 50), (60, 100)]"
proof -
  have A: "\<forall>g \<in> set (availability_gaps o_start o_end occupied). fst g < snd g"
    by (rule availability_gaps_positive)
  have B: "sorted (map fst occupied) \<and> (\<forall>i \<in> set occupied. fst i < snd i \<and> snd i \<le> o_end)
      \<longrightarrow> (\<forall>t. (\<exists>g \<in> set (availability_gaps o_start o_end occupied). fst g \<le> t \<and> t < snd g)
               \<longleftrightarrow> (o_start \<le> t \<and> t < o_end
                    \<and> \<not> (\<exists>i \<in> set occupied. fst i \<le> t \<and> t < snd i)))"
    using availability_gaps_cover by blast
  have C: "sorted (map fst (offer_get_conflict_times db offer_ref))"
    by (rule offer_get_conflict_times_sorted)
  have D: "availability_gaps 0 100 [(10, 20), (20, 30), (50, 60)] = [(0, 10), (30, 50), (60, 100)]"
    by (simp add: availability_gaps_def)
  have E: "availability_gaps 0 100 [(0, 100)] = []"
    by (simp add: availability_gaps_def)
  have F: "availability_gaps 0 100 [] = [(0, 100)]"
    by (simp add: availability_gaps_def)
  have G: "get_availabilities db_offer_leases (mk_offer ''11111'' 0 100 AVAILABLE)
       = [(0, 10), (30, 50), (60, 100)]"
    by (simp add: get_availabilities_def offer_get_conflict_times_def availability_gaps_def
          db_offer_leases_def mk_offer_def mk_lease_def)
  show ?thesis
    by (rule conjI [OF A conjI [OF B conjI [OF C conjI [OF D conjI [OF E conjI [OF F G]]]]]])
qed

theorem availability_gaps_cursor_scan_witness:
  "sorted (map fst [(10 :: time, 20 :: time), (20, 30), (50, 60)])
   \<and> (\<exists>g \<in> set (availability_gaps 0 100 [(10, 20), (20, 30), (50, 60)]). fst g \<le> 35 \<and> 35 < snd g)
   \<and> \<not> (\<exists>g \<in> set (availability_gaps 0 100 [(10, 20), (20, 30), (50, 60)]). fst g \<le> 20 \<and> 20 < snd g)"
  using availability_gaps_cursor_scan [of 0 100 "[(10, 20), (20, 30), (50, 60)]"]
  by simp

end
